theory Spec2Isabelle
  imports Complex_Main
begin

section \<open>JavaScript numbers\<close>

text \<open>
  The analytics routes compute on JavaScript numbers. A number is modelled as a real, so
  rounding error and overflow of the binary64 format are left out; what is kept is the
  behaviour of a division whose divisor is zero, which yields \<open>Infinity\<close>,
  \<open>-Infinity\<close> or \<open>NaN\<close> and not an exception. Values that come out of such a
  division have the type \<open>jsnum\<close>. The divisors met in this program are sums that
  start from \<open>+0\<close>, so a zero divisor is always \<open>+0\<close>.
\<close>

datatype jsnum = Fin real | PosInf | NegInf | NaN

definition js_div :: "real \<Rightarrow> real \<Rightarrow> jsnum" where
  "js_div a b =
     (if b \<noteq> 0 then Fin (a / b)
      else if a = 0 then NaN
      else if 0 < a then PosInf
      else NegInf)"

text \<open>\<open>x * c\<close>, \<open>x - c\<close>, \<open>c - x\<close> and \<open>x / c\<close> for a finite constant \<open>c\<close>.\<close>

fun js_mul :: "jsnum \<Rightarrow> real \<Rightarrow> jsnum" where
  "js_mul (Fin r) c = Fin (r * c)"
| "js_mul NaN c = NaN"
| "js_mul PosInf c = (if c = 0 then NaN else if 0 < c then PosInf else NegInf)"
| "js_mul NegInf c = (if c = 0 then NaN else if 0 < c then NegInf else PosInf)"

fun js_sub :: "jsnum \<Rightarrow> real \<Rightarrow> jsnum" where
  "js_sub (Fin r) c = Fin (r - c)"
| "js_sub x c = x"

fun js_rsub :: "real \<Rightarrow> jsnum \<Rightarrow> jsnum" where
  "js_rsub c (Fin r) = Fin (c - r)"
| "js_rsub c PosInf = NegInf"
| "js_rsub c NegInf = PosInf"
| "js_rsub c NaN = NaN"

fun js_divc :: "jsnum \<Rightarrow> real \<Rightarrow> jsnum" where
  "js_divc (Fin r) c = js_div r c"
| "js_divc NaN c = NaN"
| "js_divc PosInf c = (if 0 \<le> c then PosInf else NegInf)"
| "js_divc NegInf c = (if 0 \<le> c then NegInf else PosInf)"

text \<open>\<open>Math.min(c, x)\<close> and \<open>Math.max(c, x)\<close>: \<open>NaN\<close> is contagious.\<close>

fun Math_min :: "real \<Rightarrow> jsnum \<Rightarrow> jsnum" where
  "Math_min c (Fin r) = Fin (min c r)"
| "Math_min c PosInf = Fin c"
| "Math_min c NegInf = NegInf"
| "Math_min c NaN = NaN"

fun Math_max :: "real \<Rightarrow> jsnum \<Rightarrow> jsnum" where
  "Math_max c (Fin r) = Fin (max c r)"
| "Math_max c PosInf = PosInf"
| "Math_max c NegInf = Fin c"
| "Math_max c NaN = NaN"

text \<open>\<open>Math.round\<close> rounds to the nearest integer, a tie towards \<open>+Infinity\<close>.\<close>

definition Math_round :: "real \<Rightarrow> real" where
  "Math_round x = of_int \<lfloor>x + 1 / 2\<rfloor>"

fun js_round :: "jsnum \<Rightarrow> jsnum" where
  "js_round (Fin r) = Fin (Math_round r)"
| "js_round x = x"

fun is_finite :: "jsnum \<Rightarrow> bool" where
  "is_finite (Fin r) = True"
| "is_finite x = False"

text \<open>\<open>xs.reduce((s, d) => s + f(d), 0)\<close>.\<close>

definition reduce_sum :: "('a \<Rightarrow> real) \<Rightarrow> 'a list \<Rightarrow> real" where
  "reduce_sum f xs = foldl (\<lambda>s d. s + f d) 0 xs"

text \<open>\<open>xs.slice(-7)\<close> and \<open>xs.slice(-14, -7)\<close>: a negative index counts from the
  end and is clipped at the start of the array.\<close>

definition slice_last7 :: "'a list \<Rightarrow> 'a list" where
  "slice_last7 xs = drop (length xs - 7) xs"

definition slice_prior7 :: "'a list \<Rightarrow> 'a list" where
  "slice_prior7 xs = drop (length xs - 14) (take (length xs - 7) xs)"

section \<open>Revenue forecast (route \<open>GET /api/insights/revenue-forecast\<close>)\<close>

text \<open>
  A row of the daily aggregate query: the day (as a day number), the summed revenue
  (\<open>null\<close> is \<open>None\<close>) and the number of orders. The date of a forecast point is
  the last day plus \<open>i\<close> whole days; the shift that the source's use of local time can
  cause across a change of daylight saving is left out.
\<close>

record daily_row =
  dr_date :: int
  dr_revenue :: "real option"
  dr_order_count :: nat

record hist_point =
  h_date :: int
  h_revenue :: real
  h_orders :: nat

record forecast_point =
  fp_date :: int
  fp_predictedRevenue :: real
  fp_confidence :: jsnum

record forecast_response =
  fr_historical :: "hist_point list"
  fr_forecast :: "forecast_point list"
  fr_trend :: string
  fr_confidence :: "real option"
  fr_weeklyGrowth :: "jsnum option"
  fr_avgDailyRevenue :: "real option"
  fr_predictedWeeklyRevenue :: "real option"

definition historicalData :: "daily_row list \<Rightarrow> hist_point list" where
  "historicalData dailyRevenue =
     map (\<lambda>d. \<lparr>h_date = dr_date d,
                h_revenue = (case dr_revenue d of None \<Rightarrow> 0 | Some v \<Rightarrow> v),
                h_orders = dr_order_count d\<rparr>) dailyRevenue"

definition xMean :: "hist_point list \<Rightarrow> real" where
  "xMean h = (real (length h) - 1) / 2"

definition yMean :: "hist_point list \<Rightarrow> real" where
  "yMean h = reduce_sum h_revenue h / real (length h)"

text \<open>The \<open>forEach((d, i) => ...)\<close> loop accumulates both sums over the indexed rows.\<close>

definition numerator :: "hist_point list \<Rightarrow> real" where
  "numerator h =
     foldl (\<lambda>acc (i, d). acc + (real i - xMean h) * (h_revenue d - yMean h)) 0
       (enumerate 0 h)"

definition denominator :: "hist_point list \<Rightarrow> real" where
  "denominator h =
     foldl (\<lambda>acc (i, d). acc + (real i - xMean h) * (real i - xMean h)) 0
       (enumerate 0 h)"

definition slope :: "hist_point list \<Rightarrow> real" where
  "slope h = (if denominator h \<noteq> 0 then numerator h / denominator h else 0)"

definition intercept :: "hist_point list \<Rightarrow> real" where
  "intercept h = yMean h - slope h * xMean h"

definition residuals :: "hist_point list \<Rightarrow> real list" where
  "residuals h =
     map (\<lambda>(i, d). h_revenue d - (intercept h + slope h * real i)) (enumerate 0 h)"

definition variance :: "hist_point list \<Rightarrow> real" where
  "variance h = reduce_sum (\<lambda>r. r * r) (residuals h) / real (length h)"

definition stdDev :: "hist_point list \<Rightarrow> real" where
  "stdDev h = sqrt (variance h)"

definition predicted :: "hist_point list \<Rightarrow> nat \<Rightarrow> real" where
  "predicted h i = intercept h + slope h * real (length h - 1 + i)"

definition confidence :: "hist_point list \<Rightarrow> jsnum" where
  "confidence h =
     Math_max 0 (Math_min 100
       (js_rsub 100 (js_mul (js_mul (js_div (stdDev h) (yMean h)) 100) (1 / 2))))"

definition forecast_entry :: "hist_point list \<Rightarrow> nat \<Rightarrow> forecast_point" where
  "forecast_entry h i =
     \<lparr>fp_date = h_date (h ! (length h - 1)) + int i,
      fp_predictedRevenue = max 0 (Math_round (predicted h i * 100) / 100),
      fp_confidence = js_round (confidence h)\<rparr>"

text \<open>\<open>for (let i = 1; i <= 7; i++)\<close>.\<close>

definition forecast :: "hist_point list \<Rightarrow> forecast_point list" where
  "forecast h = map (forecast_entry h) [1..<8]"

definition trendDirection :: "hist_point list \<Rightarrow> string" where
  "trendDirection h =
     (if slope h > yMean h * (1 / 100) then ''growing''
      else if slope h < - yMean h * (1 / 100) then ''declining''
      else ''stable'')"

definition weeklyGrowth :: "hist_point list \<Rightarrow> jsnum" where
  "weeklyGrowth h =
     (if length h > 7
      then js_mul (js_sub (js_div (reduce_sum h_revenue (slice_last7 h))
                                  (reduce_sum h_revenue (slice_prior7 h))) 1) 100
      else Fin 0)"

definition revenue_forecast :: "daily_row list \<Rightarrow> forecast_response" where
  "revenue_forecast dailyRevenue =
     (let h = historicalData dailyRevenue in
      if length h < 7
      then \<lparr>fr_historical = h, fr_forecast = [], fr_trend = ''insufficient_data'',
            fr_confidence = Some 0, fr_weeklyGrowth = None, fr_avgDailyRevenue = None,
            fr_predictedWeeklyRevenue = None\<rparr>
      else \<lparr>fr_historical = h, fr_forecast = forecast h, fr_trend = trendDirection h,
            fr_confidence = None,
            fr_weeklyGrowth = Some (js_divc (js_round (js_mul (weeklyGrowth h) 100)) 100),
            fr_avgDailyRevenue = Some (Math_round (yMean h * 100) / 100),
            fr_predictedWeeklyRevenue =
              Some (Math_round (reduce_sum fp_predictedRevenue (forecast h) * 100) / 100)\<rparr>)"

section \<open>Decoded payloads of the external API\<close>

text \<open>
  The sync service and the webhook router read records of the external API as untyped
  JSON. A record is modelled through the fields the code reads: \<open>None\<close> stands for a
  field that is absent or \<open>null\<close>. Identifiers and counts are JSON numbers, texts are
  JSON strings, a monetary field is the decimal string of the external schema and is
  represented by the number \<open>parseFloat\<close> reads from it (\<open>None\<close> also for the empty
  string, which is falsy), and a timestamp is the instant its text denotes, in
  milliseconds.

  Where the code tells \<open>null\<close> from an absent field, the model follows the absent field
  for an identifier and for the creation date of an order, and \<open>null\<close> elsewhere. So
  three behaviours on malformed records are not represented: the text \<open>null\<close> that
  \<open>String\<close> gives a \<open>null\<close> identifier, the epoch that \<open>new Date\<close> gives a
  \<open>null\<close> creation date of an order, and the column that an update leaves as it is
  when the field is absent. An identifier is an integer of magnitude below \<open>2^53\<close>,
  which \<open>String\<close> prints digit by digit.
\<close>

record ext_address =
  ad_first_name :: "string option"
  ad_last_name :: "string option"
  ad_phone :: "string option"

record ext_customer =
  ec_id :: "int option"
  ec_email :: "string option"
  ec_first_name :: "string option"
  ec_last_name :: "string option"
  ec_phone :: "string option"
  ec_default_address :: "ext_address option"

record ext_line_item =
  el_id :: "int option"
  el_product_id :: "int option"
  el_title :: "string option"
  el_quantity :: "int option"
  el_price :: "real option"
  el_sku :: "string option"
  el_variant_id :: "int option"

record ext_variant =
  ev_price :: "real option"
  ev_compare_at_price :: "real option"
  ev_inventory_quantity :: "int option"

record payload =
  p_id :: "int option"
  p_email :: "string option"
  p_first_name :: "string option"
  p_last_name :: "string option"
  p_phone :: "string option"
  p_tags :: "string option"
  p_total_spent :: "real option"
  p_orders_count :: "int option"
  p_created_at :: "int option"
  p_customer :: "ext_customer option"
  p_total_price :: "real option"
  p_subtotal_price :: "real option"
  p_total_tax :: "real option"
  p_total_discounts :: "real option"
  p_financial_status :: "string option"
  p_fulfillment_status :: "string option"
  p_order_number :: "int option"
  p_name :: "string option"
  p_currency :: "string option"
  p_line_items :: "ext_line_item list option"
  p_variants :: "ext_variant list"
  p_title :: "string option"
  p_handle :: "string option"
  p_vendor :: "string option"
  p_product_type :: "string option"
  p_status :: "string option"
  p_image_src :: "string option"
  p_images_src :: "string option list"
  p_token :: "string option"

subsection \<open>JavaScript coercions\<close>

definition digits :: string where
  "digits = ''0123456789''"

fun string_of_nat :: "nat \<Rightarrow> string" where
  "string_of_nat n =
     (if n < 10 then [digits ! n] else string_of_nat (n div 10) @ [digits ! (n mod 10)])"

declare string_of_nat.simps [simp del]

definition string_of_int :: "int \<Rightarrow> string" where
  "string_of_int i = (if i < 0 then CHR ''-'' # string_of_nat (nat (- i)) else string_of_nat (nat i))"

text \<open>\<open>String(v)\<close> for a numeric identifier that may be missing.\<close>

definition String_of :: "int option \<Rightarrow> string" where
  "String_of v = (case v of None \<Rightarrow> ''undefined'' | Some i \<Rightarrow> string_of_int i)"

text \<open>\<open>v?.toString()\<close>.\<close>

definition toString_opt :: "int option \<Rightarrow> string option" where
  "toString_opt v = map_option string_of_int v"

text \<open>Truthiness of a string that may be missing, and \<open>a || b\<close> on such strings.\<close>

definition truthy :: "string option \<Rightarrow> bool" where
  "truthy v = (case v of None \<Rightarrow> False | Some t \<Rightarrow> t \<noteq> [])"

definition js_or :: "string option \<Rightarrow> string option \<Rightarrow> string option" where
  "js_or a b = (if truthy a then a else b)"

text \<open>A numeric identifier is truthy when it is present and not zero.\<close>

definition truthy_id :: "int option \<Rightarrow> bool" where
  "truthy_id v = (case v of None \<Rightarrow> False | Some i \<Rightarrow> i \<noteq> 0)"

text \<open>\<open>parseFloat(v || '0')\<close> and \<open>v || 0\<close>.\<close>

definition parseFloat_or0 :: "real option \<Rightarrow> real" where
  "parseFloat_or0 v = (case v of None \<Rightarrow> 0 | Some x \<Rightarrow> x)"

definition int_or0 :: "int option \<Rightarrow> int" where
  "int_or0 v = (case v of None \<Rightarrow> 0 | Some x \<Rightarrow> x)"

text \<open>In the \<open>update\<close> part of an upsert, \<open>undefined\<close> leaves the column as it is.\<close>

definition set_unless_undefined :: "'a option \<Rightarrow> 'a option \<Rightarrow> 'a option" where
  "set_unless_undefined v old = (case v of None \<Rightarrow> old | Some x \<Rightarrow> Some x)"

section \<open>Tenant record store\<close>

text \<open>
  The tables the code writes, one record per row with the columns the code names. Local
  row identifiers are drawn from a counter; tenant identifiers are given strings. The
  schema file is not among the sources: a column is taken to accept \<open>null\<close> wherever
  the code may write it, and \<open>updatedAt\<close> is also stamped when a row is created.
\<close>

datatype SyncType = Customers | Orders | Products

record tenant =
  tn_id :: string
  tn_name :: string
  tn_shopifyDomain :: string
  tn_accessToken :: "string option"
  tn_isActive :: bool
  tn_lastSyncAt :: "int option"

record customer =
  cu_id :: nat
  cu_tenantId :: string
  cu_shopifyId :: string
  cu_email :: "string option"
  cu_firstName :: "string option"
  cu_lastName :: "string option"
  cu_phone :: "string option"
  cu_tags :: "string option"
  cu_totalSpent :: real
  cu_ordersCount :: int
  cu_shopifyCreatedAt :: "int option"
  cu_updatedAt :: int

record order =
  or_id :: nat
  or_tenantId :: string
  or_shopifyId :: string
  or_orderNumber :: "string option"
  or_name :: "string option"
  or_totalPrice :: real
  or_subtotalPrice :: "real option"
  or_totalTax :: "real option"
  or_totalDiscounts :: "real option"
  or_currency :: string
  or_financialStatus :: "string option"
  or_fulfillmentStatus :: "string option"
  or_customerId :: "nat option"
  or_orderDate :: int
  or_updatedAt :: int

record orderLineItem =
  li_shopifyId :: string
  li_orderId :: nat
  li_productId :: "string option"
  li_title :: "string option"
  li_quantity :: "int option"
  li_price :: real
  li_sku :: "string option"
  li_variantId :: "string option"

record product =
  pr_id :: nat
  pr_tenantId :: string
  pr_shopifyId :: string
  pr_title :: "string option"
  pr_handle :: "string option"
  pr_vendor :: "string option"
  pr_productType :: "string option"
  pr_status :: string
  pr_tags :: "string option"
  pr_price :: real
  pr_compareAtPrice :: "real option"
  pr_inventory :: int
  pr_imageUrl :: "string option"
  pr_shopifyCreatedAt :: "int option"
  pr_updatedAt :: int

record event =
  en_tenantId :: string
  en_type :: string
  en_source :: string
  en_customerId :: "string option"
  en_sessionId :: "string option"
  en_payload :: payload

record syncLog =
  sl_id :: nat
  sl_tenantId :: string
  sl_type :: SyncType
  sl_status :: string
  sl_itemCount :: "nat option"
  sl_error :: "string option"
  sl_startedAt :: int
  sl_completedAt :: "int option"

record store =
  tenants :: "tenant list"
  customers :: "customer list"
  orders :: "order list"
  orderLineItems :: "orderLineItem list"
  products :: "product list"
  events :: "event list"
  syncLogs :: "syncLog list"
  nextId :: nat

text \<open>
  What the code can throw: a JavaScript \<open>Error\<close> with its message, the syntax error of
  \<open>JSON.parse\<close>, and the validation error with which the database client rejects an
  invalid \<open>Date\<close> before it sends a query.
\<close>

datatype error = Error string | SyntaxError | ValidationError

text \<open>\<open>error instanceof Error ? error.message : 'Unknown error'\<close>: every value thrown
  here is an \<open>Error\<close>; the texts of the two library errors stand for their messages.\<close>

definition error_message :: "error \<Rightarrow> string" where
  "error_message e =
     (case e of Error m \<Rightarrow> m | SyntaxError \<Rightarrow> ''SyntaxError'' | ValidationError \<Rightarrow> ''ValidationError'')"

subsection \<open>Database client\<close>

text \<open>
  \<open>upsert\<close> on a unique key: the row that has the key is updated in place, and
  when there is none the new row is appended. The saved row is returned with the table.
\<close>

fun upsert_row :: "('r \<Rightarrow> bool) \<Rightarrow> ('r \<Rightarrow> 'r) \<Rightarrow> 'r \<Rightarrow> 'r list \<Rightarrow> 'r \<times> 'r list" where
  "upsert_row key upd new [] = (new, [new])"
| "upsert_row key upd new (r # rs) =
     (if key r then (upd r, upd r # rs)
      else (fst (upsert_row key upd new rs), r # snd (upsert_row key upd new rs)))"

definition tenant_findUnique :: "store \<Rightarrow> string \<Rightarrow> tenant option" where
  "tenant_findUnique s tenantId = find (\<lambda>t. tn_id t = tenantId) (tenants s)"

definition customer_key :: "string \<Rightarrow> string \<Rightarrow> customer \<Rightarrow> bool" where
  "customer_key tenantId shopifyId r = (cu_tenantId r = tenantId \<and> cu_shopifyId r = shopifyId)"

definition order_key :: "string \<Rightarrow> string \<Rightarrow> order \<Rightarrow> bool" where
  "order_key tenantId shopifyId r = (or_tenantId r = tenantId \<and> or_shopifyId r = shopifyId)"

definition product_key :: "string \<Rightarrow> string \<Rightarrow> product \<Rightarrow> bool" where
  "product_key tenantId shopifyId r = (pr_tenantId r = tenantId \<and> pr_shopifyId r = shopifyId)"

definition customer_findUnique :: "store \<Rightarrow> string \<Rightarrow> string \<Rightarrow> customer option" where
  "customer_findUnique s tenantId shopifyId = find (customer_key tenantId shopifyId) (customers s)"

definition order_findUnique :: "store \<Rightarrow> string \<Rightarrow> string \<Rightarrow> order option" where
  "order_findUnique s tenantId shopifyId = find (order_key tenantId shopifyId) (orders s)"

definition customer_upsert ::
  "string \<Rightarrow> string \<Rightarrow> (customer \<Rightarrow> customer) \<Rightarrow> (nat \<Rightarrow> customer) \<Rightarrow> store \<Rightarrow> customer \<times> store" where
  "customer_upsert tenantId shopifyId upd crt s =
     (let res = upsert_row (customer_key tenantId shopifyId) upd (crt (nextId s)) (customers s)
      in (fst res, s\<lparr>customers := snd res, nextId := Suc (nextId s)\<rparr>))"

definition order_upsert ::
  "string \<Rightarrow> string \<Rightarrow> (order \<Rightarrow> order) \<Rightarrow> (nat \<Rightarrow> order) \<Rightarrow> store \<Rightarrow> order \<times> store" where
  "order_upsert tenantId shopifyId upd crt s =
     (let res = upsert_row (order_key tenantId shopifyId) upd (crt (nextId s)) (orders s)
      in (fst res, s\<lparr>orders := snd res, nextId := Suc (nextId s)\<rparr>))"

definition product_upsert ::
  "string \<Rightarrow> string \<Rightarrow> (product \<Rightarrow> product) \<Rightarrow> (nat \<Rightarrow> product) \<Rightarrow> store \<Rightarrow> product \<times> store" where
  "product_upsert tenantId shopifyId upd crt s =
     (let res = upsert_row (product_key tenantId shopifyId) upd (crt (nextId s)) (products s)
      in (fst res, s\<lparr>products := snd res, nextId := Suc (nextId s)\<rparr>))"

definition orderLineItem_deleteMany :: "nat \<Rightarrow> store \<Rightarrow> store" where
  "orderLineItem_deleteMany orderId s =
     s\<lparr>orderLineItems := filter (\<lambda>li. li_orderId li \<noteq> orderId) (orderLineItems s)\<rparr>"

definition orderLineItem_create :: "orderLineItem \<Rightarrow> store \<Rightarrow> store" where
  "orderLineItem_create li s = s\<lparr>orderLineItems := orderLineItems s @ [li]\<rparr>"

definition event_create :: "event \<Rightarrow> store \<Rightarrow> store" where
  "event_create e s = s\<lparr>events := events s @ [e]\<rparr>"

definition syncLog_create :: "string \<Rightarrow> SyncType \<Rightarrow> int \<Rightarrow> store \<Rightarrow> nat \<times> store" where
  "syncLog_create tenantId ty now s =
     (nextId s,
      s\<lparr>syncLogs := syncLogs s @
           [\<lparr>sl_id = nextId s, sl_tenantId = tenantId, sl_type = ty, sl_status = ''running'',
             sl_itemCount = None, sl_error = None, sl_startedAt = now, sl_completedAt = None\<rparr>],
        nextId := Suc (nextId s)\<rparr>)"

definition syncLog_update :: "nat \<Rightarrow> (syncLog \<Rightarrow> syncLog) \<Rightarrow> store \<Rightarrow> store" where
  "syncLog_update logId upd s =
     s\<lparr>syncLogs := map (\<lambda>l. if sl_id l = logId then upd l else l) (syncLogs s)\<rparr>"

definition tenant_update :: "string \<Rightarrow> (tenant \<Rightarrow> tenant) \<Rightarrow> store \<Rightarrow> store" where
  "tenant_update tenantId upd s =
     s\<lparr>tenants := map (\<lambda>t. if tn_id t = tenantId then upd t else t) (tenants s)\<rparr>"

section \<open>Sync service (\<open>services/shopifyService.ts\<close>)\<close>

text \<open>
  \<open>shopifyRequest\<close> performs an HTTP request; its outcome is a parameter of the model:
  either the error it throws for a response that is not ok, or the decoded body, of which
  the callers read one collection. Database writes are taken to succeed. The clock is
  read once per run (\<open>now\<close>). A record of the external schema carries all its fields,
  so a field read as \<open>None\<close> is written as \<open>null\<close>; only where the code writes
  \<open>x || undefined\<close> does an update leave the column as it is.
\<close>

record ShopifyConfig =
  domain :: string
  accessToken :: string

record api_response =
  rs_customers :: "payload list option"
  rs_orders :: "payload list option"
  rs_products :: "payload list option"

type_synonym shopify_api = "ShopifyConfig \<Rightarrow> string \<Rightarrow> (string \<times> string) list \<Rightarrow> error + api_response"

text \<open>\<open>response.customers || []\<close>.\<close>

definition or_empty :: "'a list option \<Rightarrow> 'a list" where
  "or_empty v = (case v of None \<Rightarrow> [] | Some xs \<Rightarrow> xs)"

subsection \<open>\<open>syncCustomers\<close>\<close>

definition syncCustomers_upsert :: "int \<Rightarrow> string \<Rightarrow> payload \<Rightarrow> store \<Rightarrow> store" where
  "syncCustomers_upsert now tenantId customer s =
     snd (customer_upsert tenantId (String_of (p_id customer))
       (\<lambda>r. r\<lparr>cu_email := p_email customer,
               cu_firstName := p_first_name customer,
               cu_lastName := p_last_name customer,
               cu_phone := p_phone customer,
               cu_tags := p_tags customer,
               cu_totalSpent := parseFloat_or0 (p_total_spent customer),
               cu_ordersCount := int_or0 (p_orders_count customer),
               cu_updatedAt := now\<rparr>)
       (\<lambda>i. \<lparr>cu_id = i,
              cu_tenantId = tenantId,
              cu_shopifyId = String_of (p_id customer),
              cu_email = p_email customer,
              cu_firstName = p_first_name customer,
              cu_lastName = p_last_name customer,
              cu_phone = p_phone customer,
              cu_tags = p_tags customer,
              cu_totalSpent = parseFloat_or0 (p_total_spent customer),
              cu_ordersCount = int_or0 (p_orders_count customer),
              cu_shopifyCreatedAt = p_created_at customer,
              cu_updatedAt = now\<rparr>) s)"

text \<open>The \<open>do ... while (pageInfo)\<close> loop clears \<open>pageInfo\<close> at the end of its body,
  so it makes one request.\<close>

definition syncCustomers ::
  "shopify_api \<Rightarrow> int \<Rightarrow> string \<Rightarrow> ShopifyConfig \<Rightarrow> store \<Rightarrow> (error + nat) \<times> store" where
  "syncCustomers api now tenantId config s =
     (case api config ''customers'' [(''limit'', ''250'')] of
        Inl e \<Rightarrow> (Inl e, s)
      | Inr response \<Rightarrow>
          (Inr (length (or_empty (rs_customers response))),
           foldl (\<lambda>s' customer. syncCustomers_upsert now tenantId customer s') s
             (or_empty (rs_customers response))))"

subsection \<open>\<open>syncOrders\<close>\<close>

text \<open>\<open>customerData.default_address?.first_name\<close> and its siblings.\<close>

definition address_field :: "(ext_address \<Rightarrow> string option) \<Rightarrow> ext_customer \<Rightarrow> string option" where
  "address_field f customerData =
     (case ec_default_address customerData of None \<Rightarrow> None | Some a \<Rightarrow> f a)"

text \<open>The customer embedded in the order: upserted when \<open>order.customer?.id\<close> is truthy.\<close>

definition syncOrders_customer :: "int \<Rightarrow> string \<Rightarrow> payload \<Rightarrow> store \<Rightarrow> nat option \<times> store" where
  "syncOrders_customer now tenantId ord s =
     (case p_customer ord of
        None \<Rightarrow> (None, s)
      | Some customerData \<Rightarrow>
          if truthy_id (ec_id customerData)
          then
            (let res = customer_upsert tenantId (String_of (ec_id customerData))
               (\<lambda>r. r\<lparr>cu_email := set_unless_undefined (js_or (ec_email customerData) None) (cu_email r),
                       cu_firstName := set_unless_undefined
                         (js_or (js_or (ec_first_name customerData)
                                       (address_field ad_first_name customerData)) None)
                         (cu_firstName r),
                       cu_lastName := set_unless_undefined
                         (js_or (js_or (ec_last_name customerData)
                                       (address_field ad_last_name customerData)) None)
                         (cu_lastName r),
                       cu_phone := set_unless_undefined
                         (js_or (js_or (ec_phone customerData)
                                       (address_field ad_phone customerData)) None)
                         (cu_phone r),
                       cu_updatedAt := now\<rparr>)
               (\<lambda>i. \<lparr>cu_id = i,
                      cu_tenantId = tenantId,
                      cu_shopifyId = String_of (ec_id customerData),
                      cu_email = ec_email customerData,
                      cu_firstName = js_or (ec_first_name customerData)
                                           (address_field ad_first_name customerData),
                      cu_lastName = js_or (ec_last_name customerData)
                                          (address_field ad_last_name customerData),
                      cu_phone = js_or (ec_phone customerData)
                                       (address_field ad_phone customerData),
                      cu_tags = None,
                      cu_totalSpent = 0,
                      cu_ordersCount = 0,
                      cu_shopifyCreatedAt = None,
                      cu_updatedAt = now\<rparr>) s
             in (Some (cu_id (fst res)), snd res))
          else (None, s))"

text \<open>\<open>order.order_number?.toString() || order.name\<close>.\<close>

definition orderNumber_of :: "payload \<Rightarrow> string option" where
  "orderNumber_of ord = js_or (toString_opt (p_order_number ord)) (p_name ord)"

text \<open>\<open>order.currency || 'USD'\<close>.\<close>

definition currency_of :: "payload \<Rightarrow> string" where
  "currency_of ord = (case js_or (p_currency ord) (Some ''USD'') of None \<Rightarrow> ''USD'' | Some c \<Rightarrow> c)"

text \<open>
  The order row. \<open>new Date(order.created_at)\<close> of a missing \<open>created_at\<close> is an invalid
  date, which the database client rejects before any write of the call.
\<close>

definition syncOrders_order ::
  "int \<Rightarrow> string \<Rightarrow> payload \<Rightarrow> nat option \<Rightarrow> store \<Rightarrow> error + order \<times> store" where
  "syncOrders_order now tenantId ord customerId s =
     (case p_created_at ord of
        None \<Rightarrow> Inl ValidationError
      | Some orderDate \<Rightarrow>
          Inr (order_upsert tenantId (String_of (p_id ord))
            (\<lambda>r. r\<lparr>or_totalPrice := parseFloat_or0 (p_total_price ord),
                    or_subtotalPrice := p_subtotal_price ord,
                    or_totalTax := p_total_tax ord,
                    or_totalDiscounts := p_total_discounts ord,
                    or_financialStatus := p_financial_status ord,
                    or_fulfillmentStatus := p_fulfillment_status ord,
                    or_customerId := customerId,
                    or_updatedAt := now\<rparr>)
            (\<lambda>i. \<lparr>or_id = i,
                   or_tenantId = tenantId,
                   or_shopifyId = String_of (p_id ord),
                   or_orderNumber = orderNumber_of ord,
                   or_name = p_name ord,
                   or_totalPrice = parseFloat_or0 (p_total_price ord),
                   or_subtotalPrice = p_subtotal_price ord,
                   or_totalTax = p_total_tax ord,
                   or_totalDiscounts = p_total_discounts ord,
                   or_currency = currency_of ord,
                   or_financialStatus = p_financial_status ord,
                   or_fulfillmentStatus = p_fulfillment_status ord,
                   or_customerId = customerId,
                   or_orderDate = orderDate,
                   or_updatedAt = now\<rparr>) s))"

definition lineItem_row :: "nat \<Rightarrow> ext_line_item \<Rightarrow> orderLineItem" where
  "lineItem_row orderId item =
     \<lparr>li_shopifyId = String_of (el_id item),
      li_orderId = orderId,
      li_productId = toString_opt (el_product_id item),
      li_title = el_title item,
      li_quantity = el_quantity item,
      li_price = parseFloat_or0 (el_price item),
      li_sku = el_sku item,
      li_variantId = toString_opt (el_variant_id item)\<rparr>"

text \<open>\<open>if (order.line_items)\<close>: delete the stored children of the order, then create
  one row per item of the payload.\<close>

definition syncOrders_lineItems :: "payload \<Rightarrow> nat \<Rightarrow> store \<Rightarrow> store" where
  "syncOrders_lineItems ord orderId s =
     (case p_line_items ord of
        None \<Rightarrow> s
      | Some items \<Rightarrow>
          foldl (\<lambda>s' item. orderLineItem_create (lineItem_row orderId item) s')
            (orderLineItem_deleteMany orderId s) items)"

text \<open>One pass of the \<open>for (const order of orders)\<close> body, with the error it may throw.\<close>

definition syncOrders_record :: "int \<Rightarrow> string \<Rightarrow> payload \<Rightarrow> store \<Rightarrow> error option \<times> store" where
  "syncOrders_record now tenantId ord s =
     (let c = syncOrders_customer now tenantId ord s in
      case syncOrders_order now tenantId ord (fst c) (snd c) of
        Inl e \<Rightarrow> (Some e, snd c)
      | Inr saved \<Rightarrow> (None, syncOrders_lineItems ord (or_id (fst saved)) (snd saved)))"

fun syncOrders_loop ::
  "int \<Rightarrow> string \<Rightarrow> payload list \<Rightarrow> nat \<Rightarrow> store \<Rightarrow> (error + nat) \<times> store" where
  "syncOrders_loop now tenantId [] count s = (Inr count, s)"
| "syncOrders_loop now tenantId (ord # rest) count s =
     (case syncOrders_record now tenantId ord s of
        (Some e, s') \<Rightarrow> (Inl e, s')
      | (None, s') \<Rightarrow> syncOrders_loop now tenantId rest (Suc count) s')"

definition syncOrders ::
  "shopify_api \<Rightarrow> int \<Rightarrow> string \<Rightarrow> ShopifyConfig \<Rightarrow> store \<Rightarrow> (error + nat) \<times> store" where
  "syncOrders api now tenantId config s =
     (case api config ''orders'' [(''limit'', ''250''), (''status'', ''any'')] of
        Inl e \<Rightarrow> (Inl e, s)
      | Inr response \<Rightarrow> syncOrders_loop now tenantId (or_empty (rs_orders response)) 0 s)"

subsection \<open>\<open>syncProducts\<close>\<close>

text \<open>\<open>product.variants?.[0]\<close>.\<close>

definition firstVariant :: "payload \<Rightarrow> ext_variant option" where
  "firstVariant product = (case p_variants product of [] \<Rightarrow> None | v # _ \<Rightarrow> Some v)"

definition product_price :: "payload \<Rightarrow> real" where
  "product_price product =
     (case firstVariant product of None \<Rightarrow> 0 | Some v \<Rightarrow> parseFloat_or0 (ev_price v))"

definition product_compareAtPrice :: "payload \<Rightarrow> real option" where
  "product_compareAtPrice product =
     (case firstVariant product of None \<Rightarrow> None | Some v \<Rightarrow> ev_compare_at_price v)"

definition product_inventory :: "payload \<Rightarrow> int" where
  "product_inventory product =
     (case firstVariant product of None \<Rightarrow> 0 | Some v \<Rightarrow> int_or0 (ev_inventory_quantity v))"

text \<open>\<open>product.image?.src || product.images?.[0]?.src\<close>.\<close>

definition product_imageUrl :: "payload \<Rightarrow> string option" where
  "product_imageUrl product =
     js_or (p_image_src product) (case p_images_src product of [] \<Rightarrow> None | i # _ \<Rightarrow> i)"

text \<open>\<open>product.status || 'active'\<close>.\<close>

definition product_status :: "payload \<Rightarrow> string" where
  "product_status product =
     (case js_or (p_status product) (Some ''active'') of None \<Rightarrow> ''active'' | Some t \<Rightarrow> t)"

definition syncProducts_upsert :: "int \<Rightarrow> string \<Rightarrow> payload \<Rightarrow> store \<Rightarrow> store" where
  "syncProducts_upsert now tenantId product s =
     snd (product_upsert tenantId (String_of (p_id product))
       (\<lambda>r. r\<lparr>pr_title := p_title product,
               pr_handle := p_handle product,
               pr_vendor := p_vendor product,
               pr_productType := p_product_type product,
               pr_status := product_status product,
               pr_tags := p_tags product,
               pr_price := product_price product,
               pr_compareAtPrice := product_compareAtPrice product,
               pr_inventory := product_inventory product,
               pr_imageUrl := product_imageUrl product,
               pr_updatedAt := now\<rparr>)
       (\<lambda>i. \<lparr>pr_id = i,
              pr_tenantId = tenantId,
              pr_shopifyId = String_of (p_id product),
              pr_title = p_title product,
              pr_handle = p_handle product,
              pr_vendor = p_vendor product,
              pr_productType = p_product_type product,
              pr_status = product_status product,
              pr_tags = p_tags product,
              pr_price = product_price product,
              pr_compareAtPrice = product_compareAtPrice product,
              pr_inventory = product_inventory product,
              pr_imageUrl = product_imageUrl product,
              pr_shopifyCreatedAt = p_created_at product,
              pr_updatedAt = now\<rparr>) s)"

definition syncProducts ::
  "shopify_api \<Rightarrow> int \<Rightarrow> string \<Rightarrow> ShopifyConfig \<Rightarrow> store \<Rightarrow> (error + nat) \<times> store" where
  "syncProducts api now tenantId config s =
     (case api config ''products'' [(''limit'', ''250'')] of
        Inl e \<Rightarrow> (Inl e, s)
      | Inr response \<Rightarrow>
          (Inr (length (or_empty (rs_products response))),
           foldl (\<lambda>s' product. syncProducts_upsert now tenantId product s') s
             (or_empty (rs_products response))))"

subsection \<open>\<open>syncTenantData\<close> and \<open>syncAllTenants\<close>\<close>

definition not_connected :: error where
  "not_connected = Error ''Tenant not found or Shopify not connected''"

text \<open>The \<open>switch (type)\<close>.\<close>

definition sync_by_type ::
  "shopify_api \<Rightarrow> int \<Rightarrow> string \<Rightarrow> ShopifyConfig \<Rightarrow> SyncType \<Rightarrow> store \<Rightarrow> (error + nat) \<times> store" where
  "sync_by_type api now tenantId config ty s =
     (case ty of
        Customers \<Rightarrow> syncCustomers api now tenantId config s
      | Orders \<Rightarrow> syncOrders api now tenantId config s
      | Products \<Rightarrow> syncProducts api now tenantId config s)"

text \<open>
  The body of \<open>for (const type of types)\<close>: a log row in state \<open>running\<close>, the sync,
  and the transition of that row to \<open>completed\<close> or, in the \<open>catch\<close>, to
  \<open>failed\<close>. The column \<open>error\<close> holds the message of the error, represented by the
  error.
\<close>

definition sync_one ::
  "shopify_api \<Rightarrow> int \<Rightarrow> string \<Rightarrow> ShopifyConfig \<Rightarrow> store \<Rightarrow> SyncType \<Rightarrow> store" where
  "sync_one api now tenantId config s ty =
     (let lg = syncLog_create tenantId ty now s;
          res = sync_by_type api now tenantId config ty (snd lg)
      in case fst res of
           Inr count \<Rightarrow>
             syncLog_update (fst lg)
               (\<lambda>l. l\<lparr>sl_status := ''completed'', sl_itemCount := Some count,
                       sl_completedAt := Some now\<rparr>) (snd res)
         | Inl e \<Rightarrow>
             syncLog_update (fst lg)
               (\<lambda>l. l\<lparr>sl_status := ''failed'', sl_error := Some (error_message e),
                       sl_completedAt := Some now\<rparr>) (snd res))"

definition syncTenantData ::
  "shopify_api \<Rightarrow> int \<Rightarrow> string \<Rightarrow> SyncType list \<Rightarrow> store \<Rightarrow> error option \<times> store" where
  "syncTenantData api now tenantId types s =
     (case tenant_findUnique s tenantId of
        None \<Rightarrow> (Some not_connected, s)
      | Some tenant \<Rightarrow>
          (case tn_accessToken tenant of
             None \<Rightarrow> (Some not_connected, s)
           | Some token \<Rightarrow>
               if token = [] then (Some not_connected, s)
               else
                 (None,
                  tenant_update tenantId (\<lambda>t. t\<lparr>tn_lastSyncAt := Some now\<rparr>)
                    (foldl (sync_one api now tenantId
                              \<lparr>domain = tn_shopifyDomain tenant, accessToken = token\<rparr>)
                       s types))))"

text \<open>The sweep of the scheduler: an error of one tenant is caught and logged.\<close>

definition syncAllTenants :: "shopify_api \<Rightarrow> int \<Rightarrow> store \<Rightarrow> store" where
  "syncAllTenants api now s =
     foldl (\<lambda>s' t. snd (syncTenantData api now (tn_id t) [Customers, Orders, Products] s')) s
       (filter (\<lambda>t. tn_isActive t \<and> tn_accessToken t \<noteq> None) (tenants s))"

section \<open>Manual sync trigger (\<open>routes/shopify.ts\<close>, \<open>POST /sync\<close>)\<close>

text \<open>
  The route answers at once and lets \<open>syncTenantData\<close> run detached; the store it
  returns here is the one reached when that run has finished. An error made with
  \<open>createError\<close> is handed to the error middleware.
\<close>

record http_error =
  he_message :: string
  he_status :: nat
  he_code :: string

definition SyncType_name :: "SyncType \<Rightarrow> string" where
  "SyncType_name ty =
     (case ty of Customers \<Rightarrow> ''customers'' | Orders \<Rightarrow> ''orders'' | Products \<Rightarrow> ''products'')"

fun join_comma :: "string list \<Rightarrow> string" where
  "join_comma [] = []"
| "join_comma [x] = x"
| "join_comma (x # y # ys) = x @ '', '' @ join_comma (y # ys)"

definition post_sync ::
  "shopify_api \<Rightarrow> int \<Rightarrow> string \<Rightarrow> SyncType option \<Rightarrow> store \<Rightarrow> (http_error + string) \<times> store" where
  "post_sync api now tenantId ty s =
     (case tenant_findUnique s tenantId of
        None \<Rightarrow>
          (Inl \<lparr>he_message = ''Tenant not found'', he_status = 404, he_code = ''NOT_FOUND''\<rparr>, s)
      | Some tenant \<Rightarrow>
          if \<not> truthy (tn_accessToken tenant)
          then (Inl \<lparr>he_message = ''Shopify not connected. Please provide access token.'',
                     he_status = 400, he_code = ''SHOPIFY_NOT_CONNECTED''\<rparr>, s)
          else
            (let syncTypes = (case ty of None \<Rightarrow> [Customers, Orders, Products] | Some t \<Rightarrow> [t])
             in (Inr (''Sync started for: '' @ join_comma (map SyncType_name syncTypes)),
                 snd (syncTenantData api now tenantId syncTypes s))))"

section \<open>Webhook router (\<open>routes/webhooks.ts\<close>)\<close>

text \<open>
  \<open>verifyWebhookSignature\<close>: the expected header value is \<open>sha256=\<close> followed by the
  base64 HMAC-SHA256 digest of the raw body under the secret. The digest is a parameter
  (\<open>hmac\<close>, applied to the secret and the body). The source hands the two buffers to
  \<open>crypto.timingSafeEquals\<close>, a name the \<open>crypto\<close> module does not export, so a call
  of the function as written would throw; the constant-time comparison it intends is
  modelled as equality of the two texts. No route calls this function: the definition
  serves only to say when a header value is not the computed one.
\<close>

definition calculatedSignature :: "(string \<Rightarrow> string \<Rightarrow> string) \<Rightarrow> string \<Rightarrow> string \<Rightarrow> string" where
  "calculatedSignature hmac body secret = ''sha256='' @ hmac secret body"

definition verifyWebhookSignature ::
  "(string \<Rightarrow> string \<Rightarrow> string) \<Rightarrow> string \<Rightarrow> string \<Rightarrow> string \<Rightarrow> bool" where
  "verifyWebhookSignature hmac body signature secret =
     (signature = calculatedSignature hmac body secret)"

definition handleCustomerWebhook :: "int \<Rightarrow> string \<Rightarrow> payload \<Rightarrow> store \<Rightarrow> store" where
  "handleCustomerWebhook now tenantId pl s =
     snd (customer_upsert tenantId (String_of (p_id pl))
       (\<lambda>r. r\<lparr>cu_email := p_email pl,
               cu_firstName := p_first_name pl,
               cu_lastName := p_last_name pl,
               cu_phone := p_phone pl,
               cu_tags := p_tags pl,
               cu_totalSpent := parseFloat_or0 (p_total_spent pl),
               cu_ordersCount := int_or0 (p_orders_count pl),
               cu_updatedAt := now\<rparr>)
       (\<lambda>i. \<lparr>cu_id = i,
              cu_tenantId = tenantId,
              cu_shopifyId = String_of (p_id pl),
              cu_email = p_email pl,
              cu_firstName = p_first_name pl,
              cu_lastName = p_last_name pl,
              cu_phone = p_phone pl,
              cu_tags = p_tags pl,
              cu_totalSpent = parseFloat_or0 (p_total_spent pl),
              cu_ordersCount = int_or0 (p_orders_count pl),
              cu_shopifyCreatedAt = p_created_at pl,
              cu_updatedAt = now\<rparr>) s)"

text \<open>The customer of an order webhook is looked up, never written:
  \<open>customerId = customer?.id || null\<close>.\<close>

definition handleOrderWebhook_customerId :: "string \<Rightarrow> payload \<Rightarrow> store \<Rightarrow> nat option" where
  "handleOrderWebhook_customerId tenantId pl s =
     (case p_customer pl of
        None \<Rightarrow> None
      | Some c \<Rightarrow>
          if truthy_id (ec_id c)
          then map_option cu_id (customer_findUnique s tenantId (String_of (ec_id c)))
          else None)"

definition handleOrderWebhook :: "int \<Rightarrow> string \<Rightarrow> payload \<Rightarrow> store \<Rightarrow> error option \<times> store" where
  "handleOrderWebhook now tenantId pl s =
     (case p_created_at pl of
        None \<Rightarrow> (Some ValidationError, s)
      | Some orderDate \<Rightarrow>
          (None,
           snd (order_upsert tenantId (String_of (p_id pl))
             (\<lambda>r. r\<lparr>or_totalPrice := parseFloat_or0 (p_total_price pl),
                     or_subtotalPrice := p_subtotal_price pl,
                     or_totalTax := p_total_tax pl,
                     or_totalDiscounts := p_total_discounts pl,
                     or_financialStatus := p_financial_status pl,
                     or_fulfillmentStatus := p_fulfillment_status pl,
                     or_updatedAt := now\<rparr>)
             (\<lambda>i. \<lparr>or_id = i,
                    or_tenantId = tenantId,
                    or_shopifyId = String_of (p_id pl),
                    or_orderNumber = orderNumber_of pl,
                    or_name = p_name pl,
                    or_totalPrice = parseFloat_or0 (p_total_price pl),
                    or_subtotalPrice = p_subtotal_price pl,
                    or_totalTax = p_total_tax pl,
                    or_totalDiscounts = p_total_discounts pl,
                    or_currency = currency_of pl,
                    or_financialStatus = p_financial_status pl,
                    or_fulfillmentStatus = p_fulfillment_status pl,
                    or_customerId = handleOrderWebhook_customerId tenantId pl s,
                    or_orderDate = orderDate,
                    or_updatedAt = now\<rparr>) s)))"

definition handleProductWebhook :: "int \<Rightarrow> string \<Rightarrow> payload \<Rightarrow> store \<Rightarrow> store" where
  "handleProductWebhook now tenantId pl s =
     snd (product_upsert tenantId (String_of (p_id pl))
       (\<lambda>r. r\<lparr>pr_title := p_title pl,
               pr_handle := p_handle pl,
               pr_vendor := p_vendor pl,
               pr_productType := p_product_type pl,
               pr_status := product_status pl,
               pr_tags := p_tags pl,
               pr_price := product_price pl,
               pr_compareAtPrice := product_compareAtPrice pl,
               pr_inventory := product_inventory pl,
               pr_imageUrl := product_imageUrl pl,
               pr_updatedAt := now\<rparr>)
       (\<lambda>i. \<lparr>pr_id = i,
              pr_tenantId = tenantId,
              pr_shopifyId = String_of (p_id pl),
              pr_title = p_title pl,
              pr_handle = p_handle pl,
              pr_vendor = p_vendor pl,
              pr_productType = p_product_type pl,
              pr_status = product_status pl,
              pr_tags = p_tags pl,
              pr_price = product_price pl,
              pr_compareAtPrice = product_compareAtPrice pl,
              pr_inventory = product_inventory pl,
              pr_imageUrl = product_imageUrl pl,
              pr_shopifyCreatedAt = p_created_at pl,
              pr_updatedAt = now\<rparr>) s)"

definition handleCartEvent :: "string \<Rightarrow> string \<Rightarrow> payload \<Rightarrow> store \<Rightarrow> store" where
  "handleCartEvent tenantId eventType pl s =
     event_create
       \<lparr>en_tenantId = tenantId,
        en_type = eventType,
        en_source = ''webhook'',
        en_customerId = (case p_customer pl of None \<Rightarrow> None | Some c \<Rightarrow> toString_opt (ec_id c)),
        en_sessionId = p_token pl,
        en_payload = pl\<rparr> s"

text \<open>
  A request to \<open>POST /api/webhooks/shopify/:tenantId\<close>: the path parameter, the two
  headers the handler reads (\<open>None\<close> when the header is missing) and the raw body.
  \<open>JSON.parse\<close> is a parameter that yields \<open>None\<close> where it throws.
\<close>

record webhook_request =
  rq_tenantId :: string
  rq_topic :: "string option"
  rq_signature :: "string option"
  rq_body :: string

record webhook_reply =
  rp_status :: nat
  rp_received :: bool
  rp_error :: "string option"

text \<open>The \<open>switch (topic)\<close>.\<close>

definition webhook_switch ::
  "int \<Rightarrow> string \<Rightarrow> string option \<Rightarrow> payload \<Rightarrow> store \<Rightarrow> error option \<times> store" where
  "webhook_switch now tenantId topic pl s =
     (if topic = Some ''customers/create'' \<or> topic = Some ''customers/update''
        then (None, handleCustomerWebhook now tenantId pl s)
      else if topic = Some ''orders/create'' \<or> topic = Some ''orders/updated''
        then handleOrderWebhook now tenantId pl s
      else if topic = Some ''products/create'' \<or> topic = Some ''products/update''
        then (None, handleProductWebhook now tenantId pl s)
      else if topic = Some ''carts/create'' \<or> topic = Some ''carts/update''
        then (None, handleCartEvent tenantId ''cart_updated'' pl s)
      else if topic = Some ''checkouts/create''
        then (None, handleCartEvent tenantId ''checkout_started'' pl s)
      else if topic = Some ''checkouts/delete''
        then (None, handleCartEvent tenantId ''cart_abandoned'' pl s)
      else (None, s))"

definition shopify_webhook ::
  "(string \<Rightarrow> payload option) \<Rightarrow> int \<Rightarrow> webhook_request \<Rightarrow> store \<Rightarrow> webhook_reply \<times> store" where
  "shopify_webhook JSON_parse now rq s =
     (case tenant_findUnique s (rq_tenantId rq) of
        None \<Rightarrow>
          (\<lparr>rp_status = 404, rp_received = False, rp_error = Some ''Tenant not found''\<rparr>, s)
      | Some tenant \<Rightarrow>
          (case JSON_parse (rq_body rq) of
             None \<Rightarrow>
               (\<lparr>rp_status = 200, rp_received = True, rp_error = Some ''Processing error''\<rparr>, s)
           | Some pl \<Rightarrow>
               (let res = webhook_switch now (rq_tenantId rq) (rq_topic rq) pl s in
                case fst res of
                  None \<Rightarrow> (\<lparr>rp_status = 200, rp_received = True, rp_error = None\<rparr>, snd res)
                | Some e \<Rightarrow>
                    (\<lparr>rp_status = 200, rp_received = True, rp_error = Some ''Processing error''\<rparr>,
                     snd res))))"

section \<open>Insights (\<open>routes/insights.ts\<close>)\<close>

subsection \<open>RFM segmentation (\<open>GET /api/insights/rfm-segments\<close>)\<close>


definition rfm_customers :: "store \<Rightarrow> string \<Rightarrow> customer list" where
  "rfm_customers s tenantId = filter (\<lambda>c. cu_tenantId c = tenantId) (customers s)"









subsection \<open>Daily revenue query of the forecast\<close>

text \<open>
  The raw SQL query groups the orders of the tenant placed on or after \<open>startDate\<close>
  (thirty days before now) by \<open>DATE(orderDate)\<close>, in ascending order of the day. A
  day is the day number of the timestamp in UTC.
\<close>

definition day_of :: "int \<Rightarrow> int" where
  "day_of t = t div (1000 * 60 * 60 * 24)"

definition forecast_startDate :: "int \<Rightarrow> int" where
  "forecast_startDate now = now - 30 * (1000 * 60 * 60 * 24)"

definition forecast_orders :: "store \<Rightarrow> string \<Rightarrow> int \<Rightarrow> order list" where
  "forecast_orders s tenantId startDate =
     filter (\<lambda>ord. or_tenantId ord = tenantId \<and> or_orderDate ord \<ge> startDate) (orders s)"

definition dailyRevenue :: "store \<Rightarrow> string \<Rightarrow> int \<Rightarrow> daily_row list" where
  "dailyRevenue s tenantId startDate =
     (let rows = forecast_orders s tenantId startDate in
      map (\<lambda>d. \<lparr>dr_date = d,
                 dr_revenue = Some (sum_list (map or_totalPrice
                                (filter (\<lambda>ord. day_of (or_orderDate ord) = d) rows))),
                 dr_order_count = length (filter (\<lambda>ord. day_of (or_orderDate ord) = d) rows)\<rparr>)
        (sort (remdups (map (\<lambda>ord. day_of (or_orderDate ord)) rows))))"

definition revenue_forecast_route :: "store \<Rightarrow> string \<Rightarrow> int \<Rightarrow> forecast_response" where
  "revenue_forecast_route s tenantId now =
     revenue_forecast (dailyRevenue s tenantId (forecast_startDate now))"

section \<open>Derived notions and sample data\<close>

text \<open>The stored line items of the order with a given natural key.\<close>

definition order_lineItems :: "store \<Rightarrow> string \<Rightarrow> string \<Rightarrow> orderLineItem list" where
  "order_lineItems s tenantId shopifyId =
     (case order_findUnique s tenantId shopifyId of
        None \<Rightarrow> []
      | Some r \<Rightarrow> filter (\<lambda>li. li_orderId li = or_id r) (orderLineItems s))"

text \<open>A payload with no field set, a line item with an identifier only, and a store
  that holds tenants and nothing else.\<close>

definition empty_payload :: payload where
  "empty_payload =
     \<lparr>p_id = None, p_email = None, p_first_name = None, p_last_name = None, p_phone = None,
      p_tags = None, p_total_spent = None, p_orders_count = None, p_created_at = None,
      p_customer = None, p_total_price = None, p_subtotal_price = None, p_total_tax = None,
      p_total_discounts = None, p_financial_status = None, p_fulfillment_status = None,
      p_order_number = None, p_name = None, p_currency = None, p_line_items = None,
      p_variants = [], p_title = None, p_handle = None, p_vendor = None,
      p_product_type = None, p_status = None, p_image_src = None, p_images_src = [],
      p_token = None\<rparr>"

definition line_item :: "int \<Rightarrow> ext_line_item" where
  "line_item i =
     \<lparr>el_id = Some i, el_product_id = None, el_title = None, el_quantity = Some 1,
      el_price = Some 10, el_sku = None, el_variant_id = None\<rparr>"

definition tenant_row :: "string \<Rightarrow> string option \<Rightarrow> tenant" where
  "tenant_row tenantId token =
     \<lparr>tn_id = tenantId, tn_name = tenantId, tn_shopifyDomain = tenantId,
      tn_accessToken = token, tn_isActive = True, tn_lastSyncAt = None\<rparr>"

definition store_of :: "tenant list \<Rightarrow> store" where
  "store_of ts =
     \<lparr>tenants = ts, customers = [], orders = [], orderLineItems = [], products = [],
      events = [], syncLogs = [], nextId = 0\<rparr>"

text \<open>A customer record and an order record of the external API. The order embeds
  customer 7 and has one line item.\<close>

definition customer123 :: payload where
  "customer123 = empty_payload\<lparr>p_id := Some 123, p_email := Some ''a@example.com''\<rparr>"

definition order1001 :: payload where
  "order1001 =
     empty_payload
       \<lparr>p_id := Some 1001, p_created_at := Some 0, p_total_price := Some 50,
        p_customer := Some \<lparr>ec_id = Some 7, ec_email = Some ''c@example.com'',
                            ec_first_name = None, ec_last_name = None, ec_phone = None,
                            ec_default_address = None\<rparr>,
        p_line_items := Some [line_item 501]\<rparr>"

text \<open>\<open>JSON.parse\<close> on the two request bodies used below.\<close>

definition parse_sample :: "string \<Rightarrow> payload option" where
  "parse_sample body =
     (if body = ''customer123'' then Some customer123
      else if body = ''order1001'' then Some order1001
      else None)"

definition webhook_of :: "string \<Rightarrow> string \<Rightarrow> string \<Rightarrow> webhook_request" where
  "webhook_of topic signature body =
     \<lparr>rq_tenantId = ''tenantA'', rq_topic = Some topic, rq_signature = Some signature,
      rq_body = body\<rparr>"

text \<open>The external API answering the orders request with the one order.\<close>

definition api_sample :: shopify_api where
  "api_sample config endpoint params =
     Inr \<lparr>rs_customers = None, rs_orders = Some [order1001], rs_products = None\<rparr>"

text \<open>Daily rows: revenue \<open>100 + 10 i\<close> on day \<open>i\<close> for ten days; eight days of
  which the first has revenue 0; seven days falling by 100 a day; six days of large revenue.\<close>

definition linear_rows :: "daily_row list" where
  "linear_rows =
     map (\<lambda>i. \<lparr>dr_date = int i, dr_revenue = Some (100 + 10 * real i), dr_order_count = 1\<rparr>)
       [0..<10]"

definition zero_prior_rows :: "daily_row list" where
  "zero_prior_rows =
     map (\<lambda>i. \<lparr>dr_date = int i, dr_revenue = Some (if i = 0 then 0 else 100),
                dr_order_count = 1\<rparr>) [0..<8]"

definition declining_rows :: "daily_row list" where
  "declining_rows =
     map (\<lambda>i. \<lparr>dr_date = int i, dr_revenue = Some (600 - 100 * real i), dr_order_count = 1\<rparr>)
       [0..<7]"

definition order_row :: "nat \<Rightarrow> string \<Rightarrow> int \<Rightarrow> real \<Rightarrow> order" where
  "order_row i tenantId orderDate price =
     \<lparr>or_id = i, or_tenantId = tenantId, or_shopifyId = string_of_nat i, or_orderNumber = None,
      or_name = None, or_totalPrice = price, or_subtotalPrice = None, or_totalTax = None,
      or_totalDiscounts = None, or_currency = ''USD'', or_financialStatus = None,
      or_fulfillmentStatus = None, or_customerId = None, or_orderDate = orderDate,
      or_updatedAt = orderDate\<rparr>"


text \<open>A store whose orders of tenant A fall on two days, one of them with a very large
  total, and a store with two customers of tenant A, of whom only the first has an order,
  and one customer of tenant B.\<close>

definition sparse_store :: store where
  "sparse_store =
     (store_of [tenant_row ''tenantA'' (Some ''token'')])
       \<lparr>orders := [order_row 0 ''tenantA'' 5 1000000000, order_row 1 ''tenantA'' 86400001 3]\<rparr>"


section \<open>Auxiliary facts\<close>

lemma reduce_sum_sum_list: "reduce_sum f xs = sum_list (map f xs)"
proof -
  have "foldl (\<lambda>s d. s + f d) a xs = a + sum_list (map f xs)" for a
    by (induction xs arbitrary: a) (simp_all add: add.assoc)
  then show ?thesis by (simp add: reduce_sum_def)
qed

lemma round_clamp_commute:
  "max 0 (Math_round (p * 100) / 100) = Math_round (max 0 p * 100) / 100"
proof (cases "0 \<le> p")
  case True
  then have "0 \<le> \<lfloor>p * 100 + 1 / 2\<rfloor>" by simp
  then have "0 \<le> Math_round (p * 100)" by (simp add: Math_round_def)
  with True show ?thesis by (simp add: max_def)
next
  case False
  then have "p * 100 + 1 / 2 < 1" by simp
  then have "\<lfloor>p * 100 + 1 / 2\<rfloor> \<le> 0" by (simp add: floor_le_iff)
  then have "Math_round (p * 100) \<le> 0" by (simp add: Math_round_def)
  moreover have "Math_round 0 = 0" by (simp add: Math_round_def)
  ultimately show ?thesis using False by (simp add: max_def)
qed

lemma upt_0_10: "[0..<10] = [0, 1, 2, 3, 4, 5, 6, 7, 8, 9]"
  by code_simp

lemma upt_0_8: "[0..<8] = [0, 1, 2, 3, 4, 5, 6, 7]"
  by code_simp

lemma upt_0_7: "[0..<7] = [0, 1, 2, 3, 4, 5, 6]"
  by code_simp

lemma upt_1_8: "[Suc 0..<8] = [1, 2, 3, 4, 5, 6, 7]"
  by code_simp

subsection \<open>Upsert on a table\<close>

lemma find_upsert_row:
  assumes "key new" and "\<And>r. key r \<Longrightarrow> key (upd r)"
  shows "find key (snd (upsert_row key upd new rows)) = Some (fst (upsert_row key upd new rows))"
  using assms by (induction rows) auto

lemma upsert_row_existing:
  assumes "find key rows = Some r"
  shows "fst (upsert_row key upd new rows) = upd r"
  using assms by (induction rows) (auto split: if_splits)

lemma find_upsert_row_other:
  assumes "\<not> P new" and "\<And>r. key r \<Longrightarrow> \<not> P r \<and> \<not> P (upd r)"
  shows "find P (snd (upsert_row key upd new rows)) = find P rows"
  using assms by (induction rows) auto

lemma find_SomeD: "find P xs = Some x \<Longrightarrow> P x \<and> x \<in> set xs"
  by (auto simp: find_Some_iff)

subsection \<open>Line items of a synced order\<close>

lemma orderLineItems_foldl_create:
  "orderLineItems (foldl (\<lambda>s' item. orderLineItem_create (f item) s') s items) =
     orderLineItems s @ map f items"
  by (induction items arbitrary: s) (simp_all add: orderLineItem_create_def)

lemma orders_foldl_create:
  "orders (foldl (\<lambda>s' item. orderLineItem_create (f item) s') s items) = orders s"
  by (induction items arbitrary: s) (simp_all add: orderLineItem_create_def)

lemma orders_syncOrders_customer:
  "orders (snd (syncOrders_customer now tenantId ord s)) = orders s"
  by (simp add: syncOrders_customer_def customer_upsert_def Let_def split: option.splits)

lemma syncOrders_order_saved:
  assumes "p_created_at ord = Some d"
  shows "\<exists>saved s2. syncOrders_order now tenantId ord cid s = Inr (saved, s2) \<and>
           find (order_key tenantId (String_of (p_id ord))) (orders s2) = Some saved \<and>
           (\<forall>r0. find (order_key tenantId (String_of (p_id ord))) (orders s) = Some r0
                  \<longrightarrow> or_id saved = or_id r0)"
proof -
  have "find (order_key tenantId (String_of (p_id ord))) (snd (upsert_row (order_key tenantId (String_of (p_id ord))) upd new rows)) =
        Some (fst (upsert_row (order_key tenantId (String_of (p_id ord))) upd new rows))"
    if "order_key tenantId (String_of (p_id ord)) new"
      and "\<And>r. or_tenantId (upd r) = or_tenantId r \<and> or_shopifyId (upd r) = or_shopifyId r"
    for upd new rows
    using that by (intro find_upsert_row) (simp_all add: order_key_def)
  then show ?thesis
    unfolding syncOrders_order_def order_upsert_def Let_def
    by (simp add: assms order_key_def upsert_row_existing)
qed

lemma syncOrders_record_lineItems:
  assumes "p_created_at ord = Some d" and "p_line_items ord = Some items"
  shows "\<exists>r. fst (syncOrders_record now tenantId ord s) = None \<and>
     order_findUnique (snd (syncOrders_record now tenantId ord s)) tenantId (String_of (p_id ord))
       = Some r \<and>
     order_lineItems (snd (syncOrders_record now tenantId ord s)) tenantId (String_of (p_id ord))
       = map (lineItem_row (or_id r)) items \<and>
     (\<forall>r0. order_findUnique s tenantId (String_of (p_id ord)) = Some r0 \<longrightarrow> or_id r = or_id r0)"
proof -
  define c where "c = syncOrders_customer now tenantId ord s"
  have oc: "orders (snd c) = orders s"
    by (simp add: c_def orders_syncOrders_customer)
  obtain saved s2 where sv: "syncOrders_order now tenantId ord (fst c) (snd c) = Inr (saved, s2)"
    and f: "find (order_key tenantId (String_of (p_id ord))) (orders s2) = Some saved"
    and i: "\<forall>r0. find (order_key tenantId (String_of (p_id ord))) (orders (snd c)) = Some r0
                  \<longrightarrow> or_id saved = or_id r0"
    using syncOrders_order_saved [OF assms(1)] by blast
  have res: "syncOrders_record now tenantId ord s = (None, syncOrders_lineItems ord (or_id saved) s2)"
    using sv by (simp add: syncOrders_record_def c_def Let_def)
  have o: "orders (syncOrders_lineItems ord (or_id saved) s2) = orders s2"
    by (simp add: syncOrders_lineItems_def assms(2) orders_foldl_create orderLineItem_deleteMany_def)
  have l: "filter (\<lambda>li. li_orderId li = or_id saved)
             (orderLineItems (syncOrders_lineItems ord (or_id saved) s2))
           = map (lineItem_row (or_id saved)) items"
    by (simp add: syncOrders_lineItems_def assms(2) orderLineItems_foldl_create
        orderLineItem_deleteMany_def filter_map o_def lineItem_row_def)
  show ?thesis
    using f o l i by (simp add: res order_lineItems_def order_findUnique_def oc)
qed

section \<open>Reconciliation\<close>

text \<open>
  The pull path. An order reconciled by \<open>syncOrders\<close> with line items \<open>[A, B]\<close> and
  then reconciled by it again with line items \<open>[C]\<close> keeps its row, and the line items
  stored for it are the rows of \<open>A\<close> and \<open>B\<close> after the first pass and the row of
  \<open>C\<close> alone after the second.
\<close>

lemma syncOrders_replaces_lineItems:
  assumes "p_id ord2 = p_id ord1"
    and "p_created_at ord1 \<noteq> None" and "p_created_at ord2 \<noteq> None"
    and "p_line_items ord1 = Some [A, B]" and "p_line_items ord2 = Some [C]"
    and "s1 = snd (syncOrders_record now1 tenantId ord1 s)"
    and "s2 = snd (syncOrders_record now2 tenantId ord2 s1)"
  shows "\<exists>r1 r2. order_findUnique s1 tenantId (String_of (p_id ord1)) = Some r1 \<and>
           order_lineItems s1 tenantId (String_of (p_id ord1))
             = [lineItem_row (or_id r1) A, lineItem_row (or_id r1) B] \<and>
           order_findUnique s2 tenantId (String_of (p_id ord1)) = Some r2 \<and>
           or_id r2 = or_id r1 \<and>
           order_lineItems s2 tenantId (String_of (p_id ord1)) = [lineItem_row (or_id r1) C]"
proof -
  from assms(2) obtain d1 where d1: "p_created_at ord1 = Some d1" by auto
  from assms(3) obtain d2 where d2: "p_created_at ord2 = Some d2" by auto
  from syncOrders_record_lineItems [OF d1 assms(4), of now1 tenantId s]
  obtain r1 where r1: "order_findUnique s1 tenantId (String_of (p_id ord1)) = Some r1"
    "order_lineItems s1 tenantId (String_of (p_id ord1)) = map (lineItem_row (or_id r1)) [A, B]"
    unfolding assms(6) by blast
  from syncOrders_record_lineItems [OF d2 assms(5), of now2 tenantId s1]
  obtain r2 where r2: "order_findUnique s2 tenantId (String_of (p_id ord1)) = Some r2"
    "order_lineItems s2 tenantId (String_of (p_id ord1)) = map (lineItem_row (or_id r2)) [C]"
    "\<forall>r0. order_findUnique s1 tenantId (String_of (p_id ord1)) = Some r0 \<longrightarrow> or_id r2 = or_id r0"
    unfolding assms(7) assms(1) by blast
  from r1(1) r2(3) have "or_id r2 = or_id r1" by simp
  with r1 r2 show ?thesis by simp
qed

text \<open>
  Claim C5. Record identity is the pair of tenant and external id: when two distinct
  tenants each reconcile a customer with the same external id, the store holds one row
  under each of the two keys and the two rows differ; the tenant-scoped reads of the
  insights routes (the customers of the segmentation, the orders of the forecast) return
  rows of the asked tenant only, so the row of the other tenant is not among them.
\<close>

theorem tenant_isolation:
  assumes "tenantA \<noteq> tenantB" and "p_id cB = p_id cA"
    and "s' = syncCustomers_upsert now2 tenantB cB (syncCustomers_upsert now1 tenantA cA s)"
  shows "\<exists>rA rB.
           customer_findUnique s' tenantA (String_of (p_id cA)) = Some rA \<and>
           customer_findUnique s' tenantB (String_of (p_id cA)) = Some rB \<and>
           cu_tenantId rA = tenantA \<and> cu_tenantId rB = tenantB \<and> rA \<noteq> rB \<and>
           rA \<in> set (rfm_customers s' tenantA) \<and> rB \<notin> set (rfm_customers s' tenantA) \<and>
           (\<forall>c \<in> set (rfm_customers s' tenantA). cu_tenantId c = tenantA) \<and>
           (\<forall>ord \<in> set (forecast_orders s' tenantA startDate). or_tenantId ord = tenantA)"
proof -
  let ?k = "String_of (p_id cA)"
  define s1 where "s1 = syncCustomers_upsert now1 tenantA cA s"
  have key_upsert: "find (customer_key t ?k) (snd (upsert_row (customer_key t ?k) upd new rows))
        = Some (fst (upsert_row (customer_key t ?k) upd new rows))"
    if "customer_key t ?k new"
      and "\<And>r. cu_tenantId (upd r) = cu_tenantId r \<and> cu_shopifyId (upd r) = cu_shopifyId r"
    for t upd new rows
    using that by (intro find_upsert_row) (simp_all add: customer_key_def)
  have other_upsert: "find (customer_key tenantA ?k)
          (snd (upsert_row (customer_key tenantB ?k) upd new rows))
        = find (customer_key tenantA ?k) rows"
    if "cu_tenantId new = tenantB"
      and "\<And>r. cu_tenantId (upd r) = cu_tenantId r"
    for upd new rows
    using that assms(1) by (intro find_upsert_row_other) (auto simp: customer_key_def)
  have "\<exists>rA. find (customer_key tenantA ?k) (customers s1) = Some rA"
    unfolding s1_def syncCustomers_upsert_def customer_upsert_def Let_def
    by (simp add: key_upsert customer_key_def)
  then obtain rA where a1: "find (customer_key tenantA ?k) (customers s1) = Some rA" ..
  have s': "s' = syncCustomers_upsert now2 tenantB cB s1"
    by (simp add: assms(3) s1_def)
  have a2: "find (customer_key tenantA ?k) (customers s') = Some rA"
    unfolding s' syncCustomers_upsert_def customer_upsert_def Let_def
    by (simp add: assms(2) other_upsert a1)
  have "\<exists>rB. find (customer_key tenantB ?k) (customers s') = Some rB"
    unfolding s' syncCustomers_upsert_def customer_upsert_def Let_def
    by (simp add: key_upsert customer_key_def assms(2))
  then obtain rB where b: "find (customer_key tenantB ?k) (customers s') = Some rB" ..
  from find_SomeD [OF a2] have rA: "cu_tenantId rA = tenantA" "rA \<in> set (customers s')"
    by (simp_all add: customer_key_def)
  from find_SomeD [OF b] have rB: "cu_tenantId rB = tenantB" "rB \<in> set (customers s')"
    by (simp_all add: customer_key_def)
  from rA(1) rB(1) assms(1) have ne: "rA \<noteq> rB" by auto
  show ?thesis
    using a2 b rA rB ne assms(1)
    by (auto simp: customer_findUnique_def rfm_customers_def forecast_orders_def)
qed

theorem tenant_isolation_witness:
  "''tenantA'' \<noteq> ''tenantB'' \<and>
   (\<exists>rA rB.
      customer_findUnique
        (syncCustomers_upsert 2 ''tenantB'' customer123
           (syncCustomers_upsert 1 ''tenantA'' customer123 (store_of [])))
        ''tenantA'' (String_of (p_id customer123)) = Some rA \<and>
      customer_findUnique
        (syncCustomers_upsert 2 ''tenantB'' customer123
           (syncCustomers_upsert 1 ''tenantA'' customer123 (store_of [])))
        ''tenantB'' (String_of (p_id customer123)) = Some rB \<and>
      rA \<noteq> rB \<and>
      rB \<notin> set (rfm_customers
                  (syncCustomers_upsert 2 ''tenantB'' customer123
                     (syncCustomers_upsert 1 ''tenantA'' customer123 (store_of [])))
                  ''tenantA''))"
proof -
  have n: "''tenantA'' \<noteq> ''tenantB''" by simp
  from tenant_isolation [OF n refl refl,
      where cA = customer123 and ?now1.0 = 1 and ?now2.0 = 2 and s = "store_of []"]
  show ?thesis using n by blast
qed

section \<open>Sync orchestration\<close>

text \<open>
  Claim C9. A sync run for a tenant that has no stored access credential fails with the
  not-connected error before any row is written: \<open>syncTenantData\<close> throws and the
  manual trigger answers 400 \<open>SHOPIFY_NOT_CONNECTED\<close>, and in both the store, hence the
  table of sync logs, is as it was.
\<close>

theorem sync_not_connected:
  assumes "tenant_findUnique s tenantId = Some t" and "\<not> truthy (tn_accessToken t)"
  shows "syncTenantData api now tenantId types s = (Some not_connected, s) \<and>
         syncLogs (snd (syncTenantData api now tenantId types s)) = syncLogs s \<and>
         post_sync api now tenantId ty s =
           (Inl \<lparr>he_message = ''Shopify not connected. Please provide access token.'',
                 he_status = 400, he_code = ''SHOPIFY_NOT_CONNECTED''\<rparr>, s) \<and>
         syncLogs (snd (post_sync api now tenantId ty s)) = syncLogs s"
  using assms
  by (simp add: syncTenantData_def post_sync_def truthy_def split: option.splits)

theorem sync_not_connected_witness:
  "tenant_findUnique (store_of [tenant_row ''tenantA'' None]) ''tenantA''
     = Some (tenant_row ''tenantA'' None) \<and>
   \<not> truthy (tn_accessToken (tenant_row ''tenantA'' None)) \<and>
   syncTenantData api_sample 1 ''tenantA'' [Customers, Orders, Products]
     (store_of [tenant_row ''tenantA'' None])
     = (Some not_connected, store_of [tenant_row ''tenantA'' None]) \<and>
   syncLogs (snd (syncTenantData api_sample 1 ''tenantA'' [Customers, Orders, Products]
                    (store_of [tenant_row ''tenantA'' None]))) = []"
proof -
  have f: "tenant_findUnique (store_of [tenant_row ''tenantA'' None]) ''tenantA''
             = Some (tenant_row ''tenantA'' None)"
    by (simp add: tenant_findUnique_def store_of_def tenant_row_def)
  have t: "\<not> truthy (tn_accessToken (tenant_row ''tenantA'' None))"
    by (simp add: truthy_def tenant_row_def)
  have l: "syncLogs (store_of [tenant_row ''tenantA'' None]) = []"
    by (simp add: store_of_def)
  from sync_not_connected [OF f t, of api_sample 1 "[Customers, Orders, Products]"]
  show ?thesis using f t l by simp
qed

section \<open>Revenue forecast\<close>

lemma revenue_forecast_insufficient:
  assumes "length rows < 7"
  shows "revenue_forecast rows =
           \<lparr>fr_historical = historicalData rows, fr_forecast = [],
            fr_trend = ''insufficient_data'', fr_confidence = Some 0, fr_weeklyGrowth = None,
            fr_avgDailyRevenue = None, fr_predictedWeeklyRevenue = None\<rparr>"
  using assms by (simp add: revenue_forecast_def Let_def historicalData_def)

text \<open>
  Claim C7. When the orders of a tenant in the last thirty days fall on fewer than seven
  days, the forecast route answers with trend \<open>insufficient_data\<close> and no forecast
  point, whatever the revenue of those days.
\<close>

theorem forecast_minimum_sample:
  assumes "length (dailyRevenue s tenantId (forecast_startDate now)) < 7"
  shows "fr_trend (revenue_forecast_route s tenantId now) = ''insufficient_data'' \<and>
         fr_forecast (revenue_forecast_route s tenantId now) = []"
  using assms by (simp add: revenue_forecast_route_def revenue_forecast_insufficient)

theorem forecast_minimum_sample_witness:
  "length (dailyRevenue sparse_store ''tenantA'' (forecast_startDate 86400005)) < 7 \<and>
   (\<exists>r \<in> set (dailyRevenue sparse_store ''tenantA'' (forecast_startDate 86400005)).
      dr_revenue r = Some 1000000000) \<and>
   fr_trend (revenue_forecast_route sparse_store ''tenantA'' 86400005) = ''insufficient_data'' \<and>
   fr_forecast (revenue_forecast_route sparse_store ''tenantA'' 86400005) = []"
proof -
  have d: "dailyRevenue sparse_store ''tenantA'' (forecast_startDate 86400005) =
      [\<lparr>dr_date = 0, dr_revenue = Some 1000000000, dr_order_count = 1\<rparr>,
       \<lparr>dr_date = 1, dr_revenue = Some 3, dr_order_count = 1\<rparr>]"
    by (simp add: dailyRevenue_def sparse_store_def store_of_def forecast_orders_def
        order_row_def forecast_startDate_def day_of_def Let_def)
  have l: "length (dailyRevenue sparse_store ''tenantA'' (forecast_startDate 86400005)) < 7"
    by (simp add: d)
  from forecast_minimum_sample [OF l] show ?thesis using l by (simp add: d)
qed

text \<open>
  Claim C10. Every forecast point has a predicted revenue that is not negative. The
  handler rounds the extrapolated value \<open>intercept + slope * (n - 1 + i)\<close> to two
  decimals and takes the maximum with zero; that is the same number as clamping the
  extrapolated value at zero and rounding then.
\<close>

theorem forecast_nonnegative:
  "(\<forall>p \<in> set (fr_forecast (revenue_forecast rows)). 0 \<le> fp_predictedRevenue p) \<and>
   (7 \<le> length rows \<longrightarrow>
      map fp_predictedRevenue (fr_forecast (revenue_forecast rows)) =
      map (\<lambda>i. Math_round (max 0 (predicted (historicalData rows) i) * 100) / 100) [1..<8])"
proof (intro conjI ballI impI)
  fix p
  assume "p \<in> set (fr_forecast (revenue_forecast rows))"
  then show "0 \<le> fp_predictedRevenue p"
    by (auto simp: revenue_forecast_def Let_def forecast_def forecast_entry_def
        split: if_splits)
next
  assume "7 \<le> length rows"
  then have "\<not> length (historicalData rows) < 7"
    by (simp add: historicalData_def)
  then show "map fp_predictedRevenue (fr_forecast (revenue_forecast rows)) =
      map (\<lambda>i. Math_round (max 0 (predicted (historicalData rows) i) * 100) / 100) [1..<8]"
    by (simp add: revenue_forecast_def Let_def forecast_def forecast_entry_def
        round_clamp_commute)
qed

lemma declining_hist:
  "historicalData declining_rows =
     map (\<lambda>i. \<lparr>h_date = int i, h_revenue = 600 - 100 * real i, h_orders = 1\<rparr>) [0..<7]"
  by (simp add: historicalData_def declining_rows_def)

lemma declining_length: "length (historicalData declining_rows) = 7"
  by (simp add: declining_hist)

lemma declining_xMean: "xMean (historicalData declining_rows) = 3"
  by (simp add: xMean_def declining_length)

lemma declining_yMean: "yMean (historicalData declining_rows) = 300"
  by (simp add: yMean_def declining_hist reduce_sum_def upt_0_7)

lemma declining_enumerate:
  "enumerate 0 (historicalData declining_rows) =
     map (\<lambda>i. (i, \<lparr>h_date = int i, h_revenue = 600 - 100 * real i, h_orders = 1\<rparr>)) [0..<7]"
  by (simp add: declining_hist upt_0_7)

lemma declining_slope: "slope (historicalData declining_rows) = - 100"
proof -
  have n: "numerator (historicalData declining_rows) = - 2800"
    by (simp add: numerator_def declining_enumerate declining_xMean declining_yMean upt_0_7)
  have d: "denominator (historicalData declining_rows) = 28"
    by (simp add: denominator_def declining_enumerate declining_xMean upt_0_7)
  show ?thesis by (simp add: slope_def n d)
qed

lemma declining_intercept: "intercept (historicalData declining_rows) = 600"
  by (simp add: intercept_def declining_slope declining_xMean declining_yMean)

theorem forecast_nonnegative_witness:
  "map fp_predictedRevenue (fr_forecast (revenue_forecast declining_rows)) = [0, 0, 0, 0, 0, 0, 0] \<and>
   map (predicted (historicalData declining_rows)) [1, 2, 3, 4, 5, 6, 7]
     = [- 100, - 200, - 300, - 400, - 500, - 600, - 700]"
proof -
  have l: "7 \<le> length declining_rows" by (simp add: declining_rows_def)
  have p: "map (predicted (historicalData declining_rows)) [1, 2, 3, 4, 5, 6, 7]
     = [- 100, - 200, - 300, - 400, - 500, - 600, - 700]"
    by (simp add: predicted_def declining_slope declining_intercept declining_length)
  have "map fp_predictedRevenue (fr_forecast (revenue_forecast declining_rows)) =
      map (\<lambda>i. Math_round (max 0 (predicted (historicalData declining_rows) i) * 100) / 100)
        [1..<8]"
    using forecast_nonnegative [of declining_rows] l by blast
  also have "\<dots> = [0, 0, 0, 0, 0, 0, 0]"
    using p by (simp add: upt_1_8 Math_round_def)
  finally show ?thesis using p by blast
qed

lemma linear_hist:
  "historicalData linear_rows =
     map (\<lambda>i. \<lparr>h_date = int i, h_revenue = 100 + 10 * real i, h_orders = 1\<rparr>) [0..<10]"
  by (simp add: historicalData_def linear_rows_def)

lemma linear_length: "length (historicalData linear_rows) = 10"
  by (simp add: linear_hist)

lemma linear_xMean: "xMean (historicalData linear_rows) = 9 / 2"
  by (simp add: xMean_def linear_length)

lemma linear_yMean: "yMean (historicalData linear_rows) = 145"
  by (simp add: yMean_def linear_hist reduce_sum_def upt_0_10)

lemma linear_enumerate:
  "enumerate 0 (historicalData linear_rows) =
     map (\<lambda>i. (i, \<lparr>h_date = int i, h_revenue = 100 + 10 * real i, h_orders = 1\<rparr>)) [0..<10]"
  by (simp add: linear_hist upt_0_10)

lemma linear_slope: "slope (historicalData linear_rows) = 10"
proof -
  have n: "numerator (historicalData linear_rows) = 825"
    by (simp add: numerator_def linear_enumerate linear_xMean linear_yMean upt_0_10)
  have d: "denominator (historicalData linear_rows) = 165 / 2"
    by (simp add: denominator_def linear_enumerate linear_xMean upt_0_10)
  show ?thesis by (simp add: slope_def n d)
qed

lemma linear_intercept: "intercept (historicalData linear_rows) = 100"
  by (simp add: intercept_def linear_slope linear_xMean linear_yMean)

lemma linear_residuals: "residuals (historicalData linear_rows) = replicate 10 0"
  by (simp add: residuals_def linear_enumerate linear_intercept linear_slope upt_0_10
      eval_nat_numeral)

lemma linear_stdDev: "stdDev (historicalData linear_rows) = 0"
  by (simp add: stdDev_def variance_def linear_residuals reduce_sum_sum_list sum_list_replicate)

lemma linear_confidence: "confidence (historicalData linear_rows) = Fin 100"
  by (simp add: confidence_def linear_stdDev linear_yMean js_div_def)

text \<open>
  Claim C8. For the ten-day series with revenue \<open>100 + 10 i\<close> on day \<open>i\<close> the
  regression has slope 10 (and intercept 100), every residual is 0, the residual standard
  deviation is 0, and each of the seven forecast points has confidence 100.
\<close>

theorem linear_series_forecast:
  "slope (historicalData linear_rows) = 10 \<and>
   intercept (historicalData linear_rows) = 100 \<and>
   residuals (historicalData linear_rows) = replicate 10 0 \<and>
   stdDev (historicalData linear_rows) = 0 \<and>
   map fp_confidence (fr_forecast (revenue_forecast linear_rows)) = replicate 7 (Fin 100) \<and>
   map fp_predictedRevenue (fr_forecast (revenue_forecast linear_rows))
     = [200, 210, 220, 230, 240, 250, 260]"
proof -
  have c: "map fp_confidence (fr_forecast (revenue_forecast linear_rows)) = replicate 7 (Fin 100)"
    by (simp add: revenue_forecast_def Let_def forecast_def forecast_entry_def
        linear_confidence linear_length upt_1_8 Math_round_def eval_nat_numeral)
  have p: "map fp_predictedRevenue (fr_forecast (revenue_forecast linear_rows))
     = [200, 210, 220, 230, 240, 250, 260]"
    by (simp add: revenue_forecast_def Let_def forecast_def forecast_entry_def predicted_def
        linear_intercept linear_slope linear_length upt_1_8 Math_round_def)
  show ?thesis
    using c p by (simp add: linear_slope linear_intercept linear_residuals linear_stdDev)
qed

lemma zero_prior_hist:
  "historicalData zero_prior_rows =
     map (\<lambda>i. \<lparr>h_date = int i, h_revenue = (if i = 0 then 0 else 100), h_orders = 1\<rparr>) [0..<8]"
  by (simp add: historicalData_def zero_prior_rows_def)

text \<open>
  Claim C3 (the code departs from it). Eight daily rows of which the first has revenue 0:
  \<open>n > 7\<close> holds, \<open>slice(-14, -7)\<close> is the first row alone, its sum is 0, and the
  quotient is \<open>Infinity\<close>, which is what the route returns as the weekly growth.
\<close>

theorem weeklyGrowth_zero_prior:
  "reduce_sum h_revenue (slice_last7 (historicalData zero_prior_rows)) = 700 \<and>
   reduce_sum h_revenue (slice_prior7 (historicalData zero_prior_rows)) = 0 \<and>
   weeklyGrowth (historicalData zero_prior_rows) = PosInf \<and>
   fr_weeklyGrowth (revenue_forecast zero_prior_rows) = Some PosInf \<and>
   \<not> is_finite (weeklyGrowth (historicalData zero_prior_rows))"
proof -
  have l: "length (historicalData zero_prior_rows) = 8"
    by (simp add: zero_prior_hist)
  have a: "reduce_sum h_revenue (slice_last7 (historicalData zero_prior_rows)) = 700"
    by (simp add: slice_last7_def zero_prior_hist reduce_sum_def upt_0_8)
  have b: "reduce_sum h_revenue (slice_prior7 (historicalData zero_prior_rows)) = 0"
    by (simp add: slice_prior7_def zero_prior_hist reduce_sum_def upt_0_8)
  have w: "weeklyGrowth (historicalData zero_prior_rows) = PosInf"
    by (simp add: weeklyGrowth_def l a b js_div_def)
  have "fr_weeklyGrowth (revenue_forecast zero_prior_rows) = Some PosInf"
    by (simp add: revenue_forecast_def Let_def l w)
  with a b w show ?thesis by simp
qed

section \<open>RFM segmentation\<close>




section \<open>Webhook path\<close>

lemma webhook_ignores_signature:
  "shopify_webhook JSON_parse now (rq\<lparr>rq_signature := sg\<rparr>) s = shopify_webhook JSON_parse now rq s"
  by (simp add: shopify_webhook_def cong: option.case_cong)

text \<open>
  Claim C1 (the code departs from it). A \<open>customers/create\<close> request for tenant A whose
  signature header is not the one computed over its body, whatever the digest function
  and the secret: the handler answers 200 with no error, and the customer of the payload is
  stored in a store that had no customer. The handler never reads the header.
\<close>

theorem webhook_bad_signature_applied:
  "\<not> verifyWebhookSignature hmac ''customer123''
       (calculatedSignature hmac ''customer123'' secret @ ''x'') secret \<and>
   customers (store_of [tenant_row ''tenantA'' (Some ''token'')]) = [] \<and>
   fst (shopify_webhook parse_sample now
          (webhook_of ''customers/create''
             (calculatedSignature hmac ''customer123'' secret @ ''x'') ''customer123'')
          (store_of [tenant_row ''tenantA'' (Some ''token'')]))
     = \<lparr>rp_status = 200, rp_received = True, rp_error = None\<rparr> \<and>
   map (\<lambda>r. (cu_tenantId r, cu_shopifyId r, cu_email r))
     (customers (snd (shopify_webhook parse_sample now
          (webhook_of ''customers/create''
             (calculatedSignature hmac ''customer123'' secret @ ''x'') ''customer123'')
          (store_of [tenant_row ''tenantA'' (Some ''token'')]))))
     = [(''tenantA'', String_of (Some 123), Some ''a@example.com'')]"
proof -
  have v: "\<not> verifyWebhookSignature hmac ''customer123''
       (calculatedSignature hmac ''customer123'' secret @ ''x'') secret"
    by (simp add: verifyWebhookSignature_def)
  have t: "tenant_findUnique (store_of [tenant_row ''tenantA'' (Some ''token'')]) ''tenantA''
      = Some (tenant_row ''tenantA'' (Some ''token''))"
    by (simp add: tenant_findUnique_def store_of_def tenant_row_def)
  have p: "parse_sample ''customer123'' = Some customer123"
    by (simp add: parse_sample_def)
  have w: "webhook_switch now ''tenantA'' (Some ''customers/create'') customer123 s
      = (None, handleCustomerWebhook now ''tenantA'' customer123 s)" for s
    by (simp add: webhook_switch_def)
  have h: "map (\<lambda>r. (cu_tenantId r, cu_shopifyId r, cu_email r))
      (customers (handleCustomerWebhook now ''tenantA'' customer123
         (store_of [tenant_row ''tenantA'' (Some ''token'')])))
      = [(''tenantA'', String_of (Some 123), Some ''a@example.com'')]"
    by (simp add: handleCustomerWebhook_def customer_upsert_def Let_def store_of_def
        customer123_def empty_payload_def)
  have r: "shopify_webhook parse_sample now
          (webhook_of ''customers/create'' sg ''customer123'')
          (store_of [tenant_row ''tenantA'' (Some ''token'')])
      = (\<lparr>rp_status = 200, rp_received = True, rp_error = None\<rparr>,
         handleCustomerWebhook now ''tenantA'' customer123
           (store_of [tenant_row ''tenantA'' (Some ''token'')]))" for sg
    by (simp add: shopify_webhook_def webhook_of_def t p w Let_def)
  show ?thesis
    using v h by (simp add: r) (simp add: store_of_def)
qed

text \<open>
  Claim C2 (the code departs from it). The same order record, embedding customer 7 and
  carrying one line item, reconciled into the same store by the scheduled pull
  (\<open>syncTenantData\<close> for orders) and by the webhook push (\<open>orders/create\<close>): the pull
  stores the customer, links the order to it and stores the line item; the push stores no
  customer, leaves the order without customer and stores no line item.
\<close>

theorem order_paths_diverge:
  "map cu_shopifyId
     (customers (snd (syncTenantData api_sample now ''tenantA'' [Orders]
                        (store_of [tenant_row ''tenantA'' (Some ''token'')]))))
     = [String_of (Some 7)] \<and>
   customers (snd (shopify_webhook parse_sample now
                     (webhook_of ''orders/create'' sg ''order1001'')
                     (store_of [tenant_row ''tenantA'' (Some ''token'')]))) = [] \<and>
   map (\<lambda>r. (or_shopifyId r, or_customerId r))
     (orders (snd (syncTenantData api_sample now ''tenantA'' [Orders]
                     (store_of [tenant_row ''tenantA'' (Some ''token'')]))))
     = [(String_of (Some 1001), Some 1)] \<and>
   map (\<lambda>r. (or_shopifyId r, or_customerId r))
     (orders (snd (shopify_webhook parse_sample now
                     (webhook_of ''orders/create'' sg ''order1001'')
                     (store_of [tenant_row ''tenantA'' (Some ''token'')]))))
     = [(String_of (Some 1001), None)] \<and>
   map li_shopifyId
     (orderLineItems (snd (syncTenantData api_sample now ''tenantA'' [Orders]
                             (store_of [tenant_row ''tenantA'' (Some ''token'')]))))
     = [String_of (Some 501)] \<and>
   orderLineItems (snd (shopify_webhook parse_sample now
                          (webhook_of ''orders/create'' sg ''order1001'')
                          (store_of [tenant_row ''tenantA'' (Some ''token'')]))) = []"
proof -
  let ?s0 = "store_of [tenant_row ''tenantA'' (Some ''token'')]"
  have t: "tenant_findUnique ?s0 ''tenantA'' = Some (tenant_row ''tenantA'' (Some ''token''))"
    by (simp add: tenant_findUnique_def store_of_def tenant_row_def)
  have ta: "tn_accessToken (tenant_row ''tenantA'' (Some ''token'')) = Some ''token''"
    by (simp add: tenant_row_def)
  have f: "p_id order1001 = Some 1001" "p_created_at order1001 = Some 0"
    "p_line_items order1001 = Some [line_item 501]"
    "p_customer order1001 = Some \<lparr>ec_id = Some 7, ec_email = Some ''c@example.com'',
        ec_first_name = None, ec_last_name = None, ec_phone = None, ec_default_address = None\<rparr>"
    by (simp_all add: order1001_def empty_payload_def)
  have push: "snd (shopify_webhook parse_sample now
                     (webhook_of ''orders/create'' sg ''order1001'') ?s0)
      = snd (handleOrderWebhook now ''tenantA'' order1001 ?s0)"
    by (simp add: shopify_webhook_def webhook_of_def t parse_sample_def webhook_switch_def
        Let_def split: option.splits)
  have push_c: "customers (snd (handleOrderWebhook now ''tenantA'' order1001 ?s0)) = []"
    by (simp add: handleOrderWebhook_def f order_upsert_def Let_def store_of_def)
  have push_l: "orderLineItems (snd (handleOrderWebhook now ''tenantA'' order1001 ?s0)) = []"
    by (simp add: handleOrderWebhook_def f order_upsert_def Let_def store_of_def)
  have push_o: "map (\<lambda>r. (or_shopifyId r, or_customerId r))
      (orders (snd (handleOrderWebhook now ''tenantA'' order1001 ?s0)))
      = [(String_of (Some 1001), None)]"
    by (simp add: handleOrderWebhook_def f order_upsert_def Let_def store_of_def
        handleOrderWebhook_customerId_def truthy_id_def customer_findUnique_def)
  define s1 where "s1 = snd (syncLog_create ''tenantA'' Orders now ?s0)"
  have s1: "customers s1 = []" "orders s1 = []" "orderLineItems s1 = []" "nextId s1 = 1"
    by (simp_all add: s1_def syncLog_create_def store_of_def)
  define c where "c = syncOrders_customer now ''tenantA'' order1001 s1"
  have c: "fst c = Some 1" "map cu_shopifyId (customers (snd c)) = [String_of (Some 7)]"
    "orders (snd c) = []" "orderLineItems (snd c) = []" "nextId (snd c) = 2"
    by (simp_all add: c_def syncOrders_customer_def f truthy_id_def customer_upsert_def
        Let_def s1)
  define r where "r = syncOrders_record now ''tenantA'' order1001 s1"
  have r: "fst r = None" "map cu_shopifyId (customers (snd r)) = [String_of (Some 7)]"
    "map (\<lambda>r. (or_shopifyId r, or_customerId r)) (orders (snd r))
       = [(String_of (Some 1001), Some 1)]"
    "map li_shopifyId (orderLineItems (snd r)) = [String_of (Some 501)]"
    using c
    by (simp_all add: r_def syncOrders_record_def c_def [symmetric] syncOrders_order_def f
        order_upsert_def Let_def syncOrders_lineItems_def orderLineItem_deleteMany_def
        orderLineItem_create_def lineItem_row_def line_item_def)
  have so: "syncOrders api_sample now ''tenantA'' cfg s1 = (Inr 1, snd r)" for cfg
    using r(1)
    by (cases r) (simp add: syncOrders_def api_sample_def or_empty_def r_def [symmetric])
  have pull: "snd (syncTenantData api_sample now ''tenantA'' [Orders] ?s0)
      = tenant_update ''tenantA'' (\<lambda>t. t\<lparr>tn_lastSyncAt := Some now\<rparr>)
          (syncLog_update (fst (syncLog_create ''tenantA'' Orders now ?s0))
             (\<lambda>l. l\<lparr>sl_status := ''completed'', sl_itemCount := Some 1,
                     sl_completedAt := Some now\<rparr>) (snd r))"
    by (simp add: syncTenantData_def t ta sync_one_def sync_by_type_def Let_def
        s1_def [symmetric] so)
  show ?thesis
    using r push_c push_l push_o
    by (simp add: push pull tenant_update_def syncLog_update_def)
qed

text \<open>
  Claim C4 (the code departs from it). An order reconciled by the sync service with line
  items 1 and 2 and then reconciled again, through the \<open>orders/updated\<close> webhook, with a
  payload whose only line item is 501: the webhook answers 200 with no error and updates
  the order row, and the line items stored for the order are still the rows of 1 and 2.
  \<open>handleOrderWebhook\<close> writes no line item.
\<close>

theorem line_items_stale_after_webhook:
  "p_line_items order1001 = Some [line_item 501] \<and>
   order_lineItems
     (snd (syncOrders_record now1 ''tenantA''
             (order1001\<lparr>p_line_items := Some [line_item 1, line_item 2]\<rparr>)
             (store_of [tenant_row ''tenantA'' (Some ''token'')])))
     ''tenantA'' (String_of (Some 1001))
     = [lineItem_row 1 (line_item 1), lineItem_row 1 (line_item 2)] \<and>
   fst (shopify_webhook parse_sample now2 (webhook_of ''orders/updated'' sg ''order1001'')
          (snd (syncOrders_record now1 ''tenantA''
                  (order1001\<lparr>p_line_items := Some [line_item 1, line_item 2]\<rparr>)
                  (store_of [tenant_row ''tenantA'' (Some ''token'')]))))
     = \<lparr>rp_status = 200, rp_received = True, rp_error = None\<rparr> \<and>
   map (\<lambda>r. (or_id r, or_updatedAt r))
     (orders (snd (shopify_webhook parse_sample now2
                (webhook_of ''orders/updated'' sg ''order1001'')
                (snd (syncOrders_record now1 ''tenantA''
                        (order1001\<lparr>p_line_items := Some [line_item 1, line_item 2]\<rparr>)
                        (store_of [tenant_row ''tenantA'' (Some ''token'')]))))))
     = [(1, now2)] \<and>
   order_lineItems
     (snd (shopify_webhook parse_sample now2 (webhook_of ''orders/updated'' sg ''order1001'')
        (snd (syncOrders_record now1 ''tenantA''
                (order1001\<lparr>p_line_items := Some [line_item 1, line_item 2]\<rparr>)
                (store_of [tenant_row ''tenantA'' (Some ''token'')])))))
     ''tenantA'' (String_of (Some 1001))
     = [lineItem_row 1 (line_item 1), lineItem_row 1 (line_item 2)]"
proof -
  let ?s0 = "store_of [tenant_row ''tenantA'' (Some ''token'')]"
  let ?o1 = "order1001\<lparr>p_line_items := Some [line_item 1, line_item 2]\<rparr>"
  let ?k = "String_of (Some 1001)"
  have f: "p_id order1001 = Some 1001" "p_created_at order1001 = Some 0"
    "p_line_items order1001 = Some [line_item 501]"
    "p_customer order1001 = Some \<lparr>ec_id = Some 7, ec_email = Some ''c@example.com'',
        ec_first_name = None, ec_last_name = None, ec_phone = None, ec_default_address = None\<rparr>"
    by (simp_all add: order1001_def empty_payload_def)
  define c where "c = syncOrders_customer now1 ''tenantA'' ?o1 ?s0"
  have c: "fst c = Some 0" "orders (snd c) = []" "orderLineItems (snd c) = []"
    "nextId (snd c) = 1" "tenants (snd c) = tenants ?s0"
    by (simp_all add: c_def syncOrders_customer_def f truthy_id_def customer_upsert_def
        Let_def store_of_def)
  define s1 where "s1 = snd (syncOrders_record now1 ''tenantA'' ?o1 ?s0)"
  have s1: "map (\<lambda>r. (or_id r, or_tenantId r, or_shopifyId r)) (orders s1) = [(1, ''tenantA'', ?k)]"
    "orderLineItems s1 = [lineItem_row 1 (line_item 1), lineItem_row 1 (line_item 2)]"
    "tenants s1 = tenants ?s0"
    using c
    by (simp_all add: s1_def syncOrders_record_def c_def [symmetric] syncOrders_order_def f
        order_upsert_def Let_def syncOrders_lineItems_def orderLineItem_deleteMany_def
        orderLineItem_create_def)
  from s1(1) obtain r1 where r1: "orders s1 = [r1]" "or_id r1 = 1" "or_tenantId r1 = ''tenantA''"
    "or_shopifyId r1 = ?k"
    by auto
  have l1: "order_lineItems s1 ''tenantA'' ?k
      = [lineItem_row 1 (line_item 1), lineItem_row 1 (line_item 2)]"
    by (simp add: order_lineItems_def order_findUnique_def r1 order_key_def s1(2)
        lineItem_row_def)
  have t: "tenant_findUnique s1 ''tenantA'' = Some (tenant_row ''tenantA'' (Some ''token''))"
    by (simp add: tenant_findUnique_def s1(3) store_of_def) (simp add: tenant_row_def)
  define s2 where "s2 = snd (handleOrderWebhook now2 ''tenantA'' order1001 s1)"
  have w: "shopify_webhook parse_sample now2 (webhook_of ''orders/updated'' sg ''order1001'') s1
      = (\<lparr>rp_status = 200, rp_received = True, rp_error = None\<rparr>, s2)"
    by (simp add: shopify_webhook_def webhook_of_def t parse_sample_def webhook_switch_def
        Let_def s2_def handleOrderWebhook_def f)
  have s2: "map (\<lambda>r. (or_id r, or_tenantId r, or_shopifyId r, or_updatedAt r)) (orders s2)
        = [(1, ''tenantA'', ?k, now2)]"
    "orderLineItems s2 = orderLineItems s1"
    by (simp_all add: s2_def handleOrderWebhook_def f order_upsert_def Let_def r1 order_key_def)
  from s2(1) obtain r2 where r2: "orders s2 = [r2]" "or_id r2 = 1" "or_tenantId r2 = ''tenantA''"
    "or_shopifyId r2 = ?k" "or_updatedAt r2 = now2"
    by auto
  have l2: "order_lineItems s2 ''tenantA'' ?k
      = [lineItem_row 1 (line_item 1), lineItem_row 1 (line_item 2)]"
    by (simp add: order_lineItems_def order_findUnique_def r2 order_key_def s2(2) s1(2)
        lineItem_row_def)
  show ?thesis
    using f(3) l1 l2 r2 by (simp add: s1_def [symmetric] w)
qed

end
